theory Spec2Isabelle
  imports Complex_Main "HOL-Library.Multiset"
begin

text \<open>
  A shallow embedding of the beam solver: \<open>computeChartInference\<close>, \<open>solveBeam\<close>,
  \<open>getTotalLoads\<close> and \<open>solveReactions\<close>, with the types they work on. Each function of
  the source is a function here, each loop a \<open>fold\<close> over the indices or the elements it
  runs through, each local variable that a loop updates a component of the state of that
  \<open>fold\<close>. The narrative text of the solver steps and the summary of a chart inference
  are formatted strings and are left out; a step is kept as its title.
\<close>

section \<open>Numbers\<close>

text \<open>
  The solver computes with JavaScript numbers. They are modelled in exact arithmetic: a
  finite number is a real, and the three special values that a division by zero or an
  out-of-range array read brings into a computation are kept, with the rules of IEEE 754
  for them. Rounding, overflow and the sign of zero are not modelled.
\<close>

datatype number = Fin real | PInf | NInf | NaN

definition inf_of_sign :: "real \<Rightarrow> number" where
  "inf_of_sign s = (if s = 0 then NaN else if 0 < s then PInf else NInf)"

instantiation number :: "{zero, plus, minus, uminus, times, inverse, abs, ord}"
begin

definition zero_number :: number where
  "zero_number = Fin 0"

fun uminus_number :: "number \<Rightarrow> number" where
  "uminus_number (Fin a) = Fin (- a)"
| "uminus_number PInf = NInf"
| "uminus_number NInf = PInf"
| "uminus_number NaN = NaN"

fun plus_number :: "number \<Rightarrow> number \<Rightarrow> number" where
  "plus_number (Fin a) (Fin b) = Fin (a + b)"
| "plus_number (Fin a) PInf = PInf"
| "plus_number (Fin a) NInf = NInf"
| "plus_number (Fin a) NaN = NaN"
| "plus_number PInf (Fin b) = PInf"
| "plus_number PInf PInf = PInf"
| "plus_number PInf NInf = NaN"
| "plus_number PInf NaN = NaN"
| "plus_number NInf (Fin b) = NInf"
| "plus_number NInf PInf = NaN"
| "plus_number NInf NInf = NInf"
| "plus_number NInf NaN = NaN"
| "plus_number NaN b = NaN"

definition minus_number :: "number \<Rightarrow> number \<Rightarrow> number" where
  "minus_number a b = a + (- b)"

fun times_number :: "number \<Rightarrow> number \<Rightarrow> number" where
  "times_number (Fin a) (Fin b) = Fin (a * b)"
| "times_number (Fin a) PInf = inf_of_sign a"
| "times_number (Fin a) NInf = inf_of_sign (- a)"
| "times_number (Fin a) NaN = NaN"
| "times_number PInf (Fin b) = inf_of_sign b"
| "times_number PInf PInf = PInf"
| "times_number PInf NInf = NInf"
| "times_number PInf NaN = NaN"
| "times_number NInf (Fin b) = inf_of_sign (- b)"
| "times_number NInf PInf = NInf"
| "times_number NInf NInf = PInf"
| "times_number NInf NaN = NaN"
| "times_number NaN b = NaN"

fun divide_number :: "number \<Rightarrow> number \<Rightarrow> number" where
  "divide_number (Fin a) (Fin b) = (if b = 0 then inf_of_sign a else Fin (a / b))"
| "divide_number (Fin a) PInf = Fin 0"
| "divide_number (Fin a) NInf = Fin 0"
| "divide_number (Fin a) NaN = NaN"
| "divide_number PInf (Fin b) = (if 0 \<le> b then PInf else NInf)"
| "divide_number PInf PInf = NaN"
| "divide_number PInf NInf = NaN"
| "divide_number PInf NaN = NaN"
| "divide_number NInf (Fin b) = (if 0 \<le> b then NInf else PInf)"
| "divide_number NInf PInf = NaN"
| "divide_number NInf NInf = NaN"
| "divide_number NInf NaN = NaN"
| "divide_number NaN b = NaN"

fun inverse_number :: "number \<Rightarrow> number" where
  "inverse_number (Fin a) = (if a = 0 then PInf else Fin (1 / a))"
| "inverse_number PInf = Fin 0"
| "inverse_number NInf = Fin 0"
| "inverse_number NaN = NaN"

fun abs_number :: "number \<Rightarrow> number" where
  "abs_number (Fin a) = Fin \<bar>a\<bar>"
| "abs_number PInf = PInf"
| "abs_number NInf = PInf"
| "abs_number NaN = NaN"

fun less_number :: "number \<Rightarrow> number \<Rightarrow> bool" where
  "less_number (Fin a) (Fin b) = (a < b)"
| "less_number (Fin a) PInf = True"
| "less_number (Fin a) NInf = False"
| "less_number (Fin a) NaN = False"
| "less_number PInf b = False"
| "less_number NInf (Fin b) = True"
| "less_number NInf PInf = True"
| "less_number NInf NInf = False"
| "less_number NInf NaN = False"
| "less_number NaN b = False"

fun less_eq_number :: "number \<Rightarrow> number \<Rightarrow> bool" where
  "less_eq_number (Fin a) (Fin b) = (a \<le> b)"
| "less_eq_number (Fin a) PInf = True"
| "less_eq_number (Fin a) NInf = False"
| "less_eq_number (Fin a) NaN = False"
| "less_eq_number PInf PInf = True"
| "less_eq_number PInf (Fin b) = False"
| "less_eq_number PInf NInf = False"
| "less_eq_number PInf NaN = False"
| "less_eq_number NInf NaN = False"
| "less_eq_number NInf (Fin b) = True"
| "less_eq_number NInf PInf = True"
| "less_eq_number NInf NInf = True"
| "less_eq_number NaN b = False"

instance ..

end

text \<open>\<open>Math.min\<close> of two numbers: \<open>NaN\<close> as soon as one argument is.\<close>

fun Math_min :: "number \<Rightarrow> number \<Rightarrow> number" where
  "Math_min NaN b = NaN"
| "Math_min a NaN = NaN"
| "Math_min a b = (if b < a then b else a)"

text \<open>\<open>Math.round\<close>: the nearest integer, a tie going up; the special values stay.\<close>

fun Math_round :: "number \<Rightarrow> number" where
  "Math_round (Fin a) = Fin (of_int \<lfloor>a + 1 / 2\<rfloor>)"
| "Math_round a = a"

text \<open>
  Reading \<open>arr[idx]\<close> from an array of numbers and using the result in arithmetic: an
  index that is no integer of the range reads \<open>undefined\<close>, which arithmetic turns into
  \<open>NaN\<close>.
\<close>

fun arr_get :: "number list \<Rightarrow> number \<Rightarrow> number" where
  "arr_get arr (Fin r) =
     (if of_int \<lfloor>r\<rfloor> = r \<and> 0 \<le> r \<and> nat \<lfloor>r\<rfloor> < length arr then arr ! nat \<lfloor>r\<rfloor> else NaN)"
| "arr_get arr idx = NaN"

fun is_fin :: "number \<Rightarrow> bool" where
  "is_fin (Fin a) = True"
| "is_fin a = False"

fun the_fin :: "number \<Rightarrow> real" where
  "the_fin (Fin a) = a"
| "the_fin a = 0"

text \<open>The two tolerances of the solver, \<open>1e-10\<close> and \<open>1e-12\<close>.\<close>

definition eps10 :: number where
  "eps10 = Fin (1 / 10 ^ 10)"

definition eps12 :: number where
  "eps12 = Fin (1 / 10 ^ 12)"

section \<open>Data model\<close>

text \<open>
  The types of the source, field by field. Where two interfaces share a field name, or a
  name is taken in HOL, the field carries the name of its interface: \<open>id\<close>, \<open>type\<close> and
  \<open>position\<close> of a support are \<open>sup_id\<close>, \<open>sup_type\<close> and \<open>sup_position\<close>; \<open>id\<close> and
  \<open>type\<close> of a load are \<open>load_id\<close> and \<open>load_type\<close>; \<open>length\<close>, \<open>E\<close>, \<open>G\<close>, \<open>I\<close>, \<open>J\<close>
  and \<open>depth\<close> of a beam are \<open>beam_length\<close> to \<open>beam_depth\<close>.
\<close>

datatype SupportType = pin | roller | fixed

datatype LoadType = point | udl | uvl | moment | torque

record Support =
  sup_id :: string
  sup_type :: SupportType
  sup_position :: number

text \<open>
  A load has its optional fields as options: \<open>endMagnitude\<close> and \<open>endPosition\<close> may be
  absent on any kind of load. The label and the combination link are not read by the
  solver.
\<close>

record Load =
  load_id :: string
  load_type :: LoadType
  position :: number
  magnitude :: number
  endMagnitude :: "number option"
  endPosition :: "number option"

text \<open>
  Of a beam configuration the solver reads the fields below in its numeric results; the
  hinges, the load combinations, the unit labels and the gravity constant only appear in
  the narrative text of the solver steps.
\<close>

record BeamConfig =
  beam_length :: number
  beam_E :: number
  beam_G :: number
  beam_I :: number
  beam_J :: number
  beam_depth :: number
  supports :: "Support list"
  loads :: "Load list"

record Reaction =
  Fy :: number
  Mz :: "number option"

text \<open>
  The reactions are an object keyed by support identifier: an association list in which
  setting a key that is present replaces its value in place. The entries are enumerated
  in the order in which their keys were first set, which is the order of the source for
  identifiers that are no array indices (those of the editor are not); in exact
  arithmetic the order only decides in which order the reactions are summed.
\<close>

type_synonym Reactions = "(string \<times> Reaction) list"

fun obj_set :: "string \<Rightarrow> 'v \<Rightarrow> (string \<times> 'v) list \<Rightarrow> (string \<times> 'v) list" where
  "obj_set k v [] = [(k, v)]"
| "obj_set k v ((k', v') # rest) =
     (if k' = k then (k, v) # rest else (k', v') # obj_set k v rest)"

text \<open>
  A solver step is modelled by its title alone; its description and equations are
  formatted text.
\<close>

datatype SolverStep =
    Step_ProblemSetup
  | Step_AppliedLoads
  | Step_LoadResultants
  | Step_ReactionsCantilever
  | Step_ReactionsSimplySupported
  | Step_ReactionsUnableToSolve
  | Step_SFD
  | Step_BMD
  | Step_BendingStress
  | Step_Torsion
  | Step_SlopeDeflection
  | Step_MaximumDeflection

record ChartInference =
  maxValue :: number
  maxPosition :: number
  minValue :: number
  minPosition :: number
  zeroCrossings :: "number list"

type_synonym SampledSeries = "(number \<times> number) list"

section \<open>Chart inference\<close>

text \<open>
  The scan of \<open>computeChartInference\<close>: one pass over the indices of the series, the
  running extremes and the crossings found so far as the state.
\<close>

definition chart_step ::
  "SampledSeries \<Rightarrow> nat \<Rightarrow> ChartInference \<Rightarrow> ChartInference" where
  "chart_step data i st =
     (let x = fst (data ! i); v = snd (data ! i);
          st1 = (if maxValue st < v then st\<lparr>maxValue := v, maxPosition := x\<rparr> else st);
          st2 = (if v < minValue st1 then st1\<lparr>minValue := v, minPosition := x\<rparr> else st1)
      in if 0 < i then
           (let prev = snd (data ! (i - 1)); px = fst (data ! (i - 1))
            in if (prev < Fin 0 \<and> Fin 0 \<le> v) \<or> (Fin 0 < prev \<and> v \<le> Fin 0) then
                 (let frac = \<bar>prev\<bar> / (\<bar>prev\<bar> + \<bar>v\<bar>)
                  in st2\<lparr>zeroCrossings := zeroCrossings st2 @ [px + frac * (x - px)]\<rparr>)
               else st2)
         else st2)"

definition computeChartInference :: "SampledSeries \<Rightarrow> ChartInference" where
  "computeChartInference data =
     fold (chart_step data) [0..<length data]
       \<lparr>maxValue = NInf, maxPosition = Fin 0, minValue = PInf, minPosition = Fin 0,
        zeroCrossings = []\<rparr>"

section \<open>Reaction solver\<close>

text \<open>The operator \<open>??\<close>: the default replaces an absent field only.\<close>

fun or_else :: "'a option \<Rightarrow> 'a \<Rightarrow> 'a" where
  "or_else None d = d"
| "or_else (Some v) d = v"

text \<open>
  One load's share of \<open>sumFy\<close> and \<open>sumM\<close> in \<open>getTotalLoads\<close> (the body of its
  \<open>forEach\<close>). A torque load falls through every branch.
\<close>

definition total_load_step :: "number \<Rightarrow> Load \<Rightarrow> number \<times> number \<Rightarrow> number \<times> number" where
  "total_load_step fixedPos load acc =
     (case acc of (sumFy, sumM) \<Rightarrow>
        (case load_type load of
           point \<Rightarrow>
             (sumFy + magnitude load, sumM + magnitude load * (position load - fixedPos))
         | udl \<Rightarrow>
             (let L = or_else (endPosition load) (position load) - position load;
                  P = magnitude load * L;
                  cen = position load + L / Fin 2
              in (sumFy + P, sumM + P * (cen - fixedPos)))
         | uvl \<Rightarrow>
             (let L = or_else (endPosition load) (position load) - position load;
                  w1 = magnitude load;
                  w2 = or_else (endMagnitude load) (Fin 0)
              in if Fin 0 < L then
                   (let P = ((w1 + w2) / Fin 2) * L;
                        denom = w1 + w2;
                        xc_local = (if eps12 < denom
                                    then (L / Fin 3) * ((w1 + Fin 2 * w2) / denom)
                                    else L / Fin 2);
                        cen = position load + xc_local
                    in (sumFy + P, sumM + P * (cen - fixedPos)))
                 else (sumFy, sumM))
         | moment \<Rightarrow> (sumFy, sumM + magnitude load)
         | torque \<Rightarrow> (sumFy, sumM)))"

definition getTotalLoads ::
  "Load list \<Rightarrow> number \<Rightarrow> SolverStep list \<Rightarrow> (number \<times> number) \<times> SolverStep list" where
  "getTotalLoads lds fixedPos steps =
     (fold (total_load_step fixedPos) lds (Fin 0, Fin 0), steps @ [Step_LoadResultants])"

text \<open>
  \<open>[...supports].sort((a, b) => a.position - b.position)\<close>: the sort of an array is
  stable, so for positions that the comparator orders consistently the result is the one
  of a stable insertion sort: an element stays in front of the later ones unless the
  comparator is positive.
\<close>

fun insort_position :: "Support \<Rightarrow> Support list \<Rightarrow> Support list" where
  "insort_position s [] = [s]"
| "insort_position s (t # ts) =
     (if Fin 0 < sup_position s - sup_position t then t # insort_position s ts
      else s # t # ts)"

definition sort_position :: "Support list \<Rightarrow> Support list" where
  "sort_position sups = foldr insort_position sups []"

definition solveReactions :: "BeamConfig \<Rightarrow> SolverStep list \<Rightarrow> Reactions \<times> SolverStep list" where
  "solveReactions beam steps =
     (let sorted = sort_position (supports beam)
      in case find (\<lambda>s. sup_type s = fixed) sorted of
           Some fx \<Rightarrow>
             (case getTotalLoads (loads beam) (sup_position fx) steps of
                ((sumFy, sumM), steps1) \<Rightarrow>
                  ([(sup_id fx, \<lparr>Fy = sumFy, Mz = Some sumM\<rparr>)],
                   steps1 @ [Step_ReactionsCantilever]))
         | None \<Rightarrow>
             (case sorted of
                [s1, s2] \<Rightarrow>
                  (let L = sup_position s2 - sup_position s1
                   in case getTotalLoads (loads beam) (sup_position s1) steps of
                        ((sumFy, sumM), steps1) \<Rightarrow>
                          (let R_s2 = sumM / L;
                               R_s1 = sumFy - R_s2
                           in (obj_set (sup_id s2) \<lparr>Fy = R_s2, Mz = None\<rparr>
                                 [(sup_id s1, \<lparr>Fy = R_s1, Mz = None\<rparr>)],
                               steps1 @ [Step_ReactionsSimplySupported])))
              | _ \<Rightarrow> ([], steps @ [Step_ReactionsUnableToSolve])))"

section \<open>The solver\<close>

record AnalysisResult =
  reactions :: Reactions
  shearForce :: SampledSeries
  bendingMoment :: SampledSeries
  slope :: SampledSeries
  deflection :: SampledSeries
  angleOfTwist :: SampledSeries
  maxDeflection :: number
  maxBendingMoment :: number
  maxShearForce :: number
  maxStress :: number
  maxAngleOfTwist :: number
  hasTorsion :: bool
  steps :: "SolverStep list"
  sfInference :: ChartInference
  bmInference :: ChartInference
  deflectionInference :: ChartInference

subsection \<open>Effective load list\<close>

text \<open>The truth value of a number in a condition: zero and \<open>NaN\<close> are false.\<close>

fun truthy :: "number \<Rightarrow> bool" where
  "truthy (Fin a) = (a \<noteq> 0)"
| "truthy NaN = False"
| "truthy a = True"

text \<open>
  The body of \<open>Object.entries(reactions).forEach\<close>: the reaction of a support that is
  found becomes a point load and a moment, each only above the tolerance.
\<close>

definition reaction_loads :: "Support list \<Rightarrow> string \<times> Reaction \<Rightarrow> Load list \<Rightarrow> Load list" where
  "reaction_loads sups entry allLoads =
     (case entry of (supId, reac) \<Rightarrow>
        (case find (\<lambda>s. sup_id s = supId) sups of
           None \<Rightarrow> allLoads
         | Some sp \<Rightarrow>
             (let a1 = (if eps10 < \<bar>Fy reac\<bar>
                        then allLoads @
                          [\<lparr>load_id = ''reac-'' @ supId @ ''-y'', load_type = point,
                            position = sup_position sp, magnitude = - Fy reac,
                            endMagnitude = None, endPosition = None\<rparr>]
                        else allLoads)
              in case Mz reac of
                   None \<Rightarrow> a1
                 | Some m \<Rightarrow>
                     (if truthy m \<and> eps10 < \<bar>m\<bar>
                      then a1 @
                        [\<lparr>load_id = ''reac-'' @ supId @ ''-m'', load_type = moment,
                          position = sup_position sp, magnitude = - m,
                          endMagnitude = None, endPosition = None\<rparr>]
                      else a1))))"

definition effective_loads :: "BeamConfig \<Rightarrow> Reactions \<Rightarrow> Load list" where
  "effective_loads beam reacs = fold (reaction_loads (supports beam)) reacs (loads beam)"

subsection \<open>Shear force and bending moment\<close>

definition points :: nat where
  "points = 500"

definition station :: "number \<Rightarrow> nat \<Rightarrow> number" where
  "station dx i = Fin (real i) * dx"

text \<open>
  The body of \<open>allLoads.forEach\<close> at the section \<open>x\<close>: what one load left of the cut
  adds to \<open>V\<close> and \<open>M_val\<close>.
\<close>

definition load_effect :: "number \<Rightarrow> number \<Rightarrow> Load \<Rightarrow> number \<times> number \<Rightarrow> number \<times> number" where
  "load_effect beamLength x load acc =
     (case acc of (V, M_val) \<Rightarrow>
        (case load_type load of
           point \<Rightarrow>
             (if position load \<le> x
              then (let F = - magnitude load
                    in (V + F, M_val + F * (x - position load)))
              else (V, M_val))
         | moment \<Rightarrow>
             (if position load \<le> x then (V, M_val + (- magnitude load)) else (V, M_val))
         | udl \<Rightarrow>
             (let a = position load; b = or_else (endPosition load) beamLength
              in if a \<le> x
                 then (let x_eff = Math_min x b;
                           eff_len = x_eff - a;
                           P = magnitude load * eff_len
                       in (V + (- P), M_val + (- P) * (x - (a + eff_len / Fin 2))))
                 else (V, M_val))
         | uvl \<Rightarrow>
             (let a = position load; b = or_else (endPosition load) beamLength;
                  w1 = magnitude load; w2 = or_else (endMagnitude load) (Fin 0);
                  L_load = b - a
              in if a \<le> x \<and> Fin 0 < L_load
                 then (let x_eff = Math_min x b;
                           u_loc = x_eff - a;
                           w_x = w1 + (w2 - w1) * (u_loc / L_load);
                           P = ((w1 + w_x) / Fin 2) * u_loc;
                           denom = w1 + w_x;
                           x_c_from_a = (if eps12 < denom
                                         then (u_loc / Fin 3) * ((w1 + Fin 2 * w_x) / denom)
                                         else u_loc / Fin 2)
                       in (V + (- P), M_val + (- P) * (x - (a + x_c_from_a))))
                 else (V, M_val))
         | torque \<Rightarrow> (V, M_val)))"

definition section_forces :: "number \<Rightarrow> Load list \<Rightarrow> number \<Rightarrow> number \<times> number" where
  "section_forces beamLength allLoads x = fold (load_effect beamLength x) allLoads (Fin 0, Fin 0)"

text \<open>
  The station loop: the two series and the two running maxima of absolute value.
\<close>

definition sfbm_step ::
  "number \<Rightarrow> number \<Rightarrow> Load list \<Rightarrow> nat \<Rightarrow>
   SampledSeries \<times> SampledSeries \<times> number \<times> number \<Rightarrow>
   SampledSeries \<times> SampledSeries \<times> number \<times> number" where
  "sfbm_step beamLength dx allLoads i st =
     (case st of (sf, bm, maxSF, maxBM) \<Rightarrow>
        (let x = station dx i
         in case section_forces beamLength allLoads x of
              (V, M_val) \<Rightarrow>
                (sf @ [(x, V)], bm @ [(x, M_val)],
                 (if maxSF < \<bar>V\<bar> then \<bar>V\<bar> else maxSF),
                 (if maxBM < \<bar>M_val\<bar> then \<bar>M_val\<bar> else maxBM))))"

definition sfbm_loop ::
  "number \<Rightarrow> number \<Rightarrow> Load list \<Rightarrow> SampledSeries \<times> SampledSeries \<times> number \<times> number" where
  "sfbm_loop beamLength dx allLoads =
     fold (sfbm_step beamLength dx allLoads) [0..<Suc points] ([], [], Fin 0, Fin 0)"

subsection \<open>Torsion\<close>

definition internal_torque :: "Load list \<Rightarrow> number \<Rightarrow> number \<Rightarrow> number" where
  "internal_torque torqueLoads Tx_react x =
     fold (\<lambda>l T. if position l \<le> x then T + magnitude l else T) torqueLoads Tx_react"

definition twist_step ::
  "Load list \<Rightarrow> number \<Rightarrow> number \<Rightarrow> number \<Rightarrow> nat \<Rightarrow>
   number \<times> SampledSeries \<times> number \<Rightarrow> number \<times> SampledSeries \<times> number" where
  "twist_step torqueLoads Tx_react GJ dx i st =
     (case st of (phi, aot, maxAoT) \<Rightarrow>
        (let x = station dx i;
             T = internal_torque torqueLoads Tx_react x;
             phi' = (if 0 < i then phi + (T / GJ) * dx else phi)
         in (phi', aot @ [(x, phi')], (if maxAoT < \<bar>phi'\<bar> then \<bar>phi'\<bar> else maxAoT))))"

definition reaction_torque :: "Support list \<Rightarrow> Load list \<Rightarrow> number" where
  "reaction_torque sups torqueLoads =
     (case find (\<lambda>s. sup_type s = fixed \<and> sup_position s = Fin 0) sups of
        Some fixedAtStart \<Rightarrow> - fold (\<lambda>l acc. acc + magnitude l) torqueLoads (Fin 0)
      | None \<Rightarrow> Fin 0)"

definition torsion :: "BeamConfig \<Rightarrow> number \<Rightarrow> bool \<times> SampledSeries \<times> number" where
  "torsion beam dx =
     (let torqueLoads = filter (\<lambda>l. load_type l = torque) (loads beam);
          hasTorsion = (0 < length torqueLoads)
      in if hasTorsion
         then (let Tx_react = reaction_torque (supports beam) torqueLoads;
                   GJ = beam_G beam * beam_J beam
               in case fold (twist_step torqueLoads Tx_react GJ dx) [0..<Suc points]
                         (Fin 0, [], Fin 0) of
                    (phi, aot, maxAoT) \<Rightarrow> (hasTorsion, aot, maxAoT))
         else (hasTorsion, map (\<lambda>i. (station dx i, Fin 0)) [0..<Suc points], Fin 0))"

subsection \<open>Slope and deflection\<close>

text \<open>
  The running trapezoid sums: \<open>slopeEI\<close> over the moment values and \<open>D_partial\<close> over
  \<open>slopeEI\<close> are built by the same loop, which appends to the array it reads.
\<close>

definition running_integral :: "number \<Rightarrow> number list \<Rightarrow> number list" where
  "running_integral dx vals =
     fold (\<lambda>i acc. acc @ [acc ! i + ((vals ! i + vals ! (i + 1)) / Fin 2) * dx])
       [0..<points] [Fin 0]"

definition deflection_step ::
  "number \<Rightarrow> number \<Rightarrow> number list \<Rightarrow> number list \<Rightarrow> number \<Rightarrow> number \<Rightarrow> nat \<Rightarrow>
   SampledSeries \<times> SampledSeries \<times> number \<Rightarrow> SampledSeries \<times> SampledSeries \<times> number" where
  "deflection_step dx EI slopeEI D_partial C1 C2 i st =
     (case st of (slp, dfl, maxDef) \<Rightarrow>
        (let x = station dx i;
             defVal = (D_partial ! i + C1 * x + C2) / EI
         in (slp @ [(x, (slopeEI ! i + C1) / EI)], dfl @ [(x, defVal)],
             (if maxDef < \<bar>defVal\<bar> then \<bar>defVal\<bar> else maxDef))))"

definition deflection_loop ::
  "number \<Rightarrow> number \<Rightarrow> number list \<Rightarrow> number list \<Rightarrow> number \<Rightarrow> number \<Rightarrow>
   SampledSeries \<times> SampledSeries \<times> number" where
  "deflection_loop dx EI slopeEI D_partial C1 C2 =
     fold (deflection_step dx EI slopeEI D_partial C1 C2) [0..<Suc points] ([], [], Fin 0)"

definition slope_deflection ::
  "BeamConfig \<Rightarrow> number \<Rightarrow> SampledSeries \<Rightarrow> SampledSeries \<times> SampledSeries \<times> number" where
  "slope_deflection beam dx bm =
     (let slopeEI = running_integral dx (map snd bm);
          fixedSupport = find (\<lambda>s. sup_type s = fixed) (supports beam);
          sortedSupports = sort_position (supports beam);
          EI = beam_E beam * beam_I beam
      in case fixedSupport of
           Some fs \<Rightarrow>
             (let fixedIndex = Math_round ((sup_position fs / beam_length beam) * Fin (real points));
                  C1 = - arr_get slopeEI fixedIndex;
                  D_partial = running_integral dx slopeEI;
                  C2 = - arr_get D_partial fixedIndex - C1 * sup_position fs
              in deflection_loop dx EI slopeEI D_partial C1 C2)
         | None \<Rightarrow>
             (case sortedSupports of
                sA # sB # others \<Rightarrow>
                  (let D_partial = running_integral dx slopeEI;
                       idxA = Math_round ((sup_position sA / beam_length beam) * Fin (real points));
                       idxB = Math_round ((sup_position sB / beam_length beam) * Fin (real points));
                       posA = sup_position sA; posB = sup_position sB;
                       C1 = - (arr_get D_partial idxB - arr_get D_partial idxA) / (posB - posA);
                       C2 = - arr_get D_partial idxA - C1 * posA
                   in deflection_loop dx EI slopeEI D_partial C1 C2)
              | _ \<Rightarrow>
                  (map (\<lambda>i. (station dx i, Fin 0)) [0..<Suc points],
                   map (\<lambda>i. (station dx i, Fin 0)) [0..<Suc points], Fin 0)))"

subsection \<open>solveBeam\<close>

definition solveBeam :: "BeamConfig \<Rightarrow> AnalysisResult" where
  "solveBeam beam =
     (case solveReactions beam [Step_ProblemSetup, Step_AppliedLoads] of
        (reacs, steps2) \<Rightarrow>
          (let allLoads = effective_loads beam reacs;
               dx = beam_length beam / Fin (real points)
           in case sfbm_loop (beam_length beam) dx allLoads of
                (sf, bm, maxSF, maxBM) \<Rightarrow>
                  (let maxStress' = (maxBM * (beam_depth beam / Fin 2)) / beam_I beam
                   in case torsion beam dx of
                        (hasTorsion', aot, maxAoT) \<Rightarrow>
                          (case slope_deflection beam dx bm of
                             (slp, dfl, maxDef) \<Rightarrow>
                               \<lparr>reactions = reacs,
                                shearForce = sf,
                                bendingMoment = bm,
                                slope = slp,
                                deflection = dfl,
                                angleOfTwist = aot,
                                maxDeflection = maxDef,
                                maxBendingMoment = maxBM,
                                maxShearForce = maxSF,
                                maxStress = maxStress',
                                maxAngleOfTwist = maxAoT,
                                hasTorsion = hasTorsion',
                                steps = steps2 @ [Step_SFD, Step_BMD, Step_BendingStress]
                                  @ (if hasTorsion' then [Step_Torsion] else [])
                                  @ [Step_SlopeDeflection, Step_MaximumDeflection],
                                sfInference = computeChartInference sf,
                                bmInference = computeChartInference bm,
                                deflectionInference = computeChartInference dfl\<rparr>))))"

section \<open>Vocabulary of the properties\<close>

subsection \<open>Sampled series\<close>

text \<open>The start state of the scan.\<close>

definition chart_init :: ChartInference where
  "chart_init =
     \<lparr>maxValue = NInf, maxPosition = Fin 0, minValue = PInf, minPosition = Fin 0,
      zeroCrossings = []\<rparr>"

text \<open>
  Station \<open>k\<close> is the first of the first \<open>n\<close> stations to attain the largest (smallest)
  value: no station has a larger value and every earlier one has a strictly smaller one.
\<close>

definition first_max_at :: "SampledSeries \<Rightarrow> nat \<Rightarrow> nat \<Rightarrow> bool" where
  "first_max_at data n k \<longleftrightarrow>
     k < n \<and> (\<forall>j<n. snd (data ! j) \<le> snd (data ! k)) \<and> (\<forall>j<k. snd (data ! j) < snd (data ! k))"

definition first_min_at :: "SampledSeries \<Rightarrow> nat \<Rightarrow> nat \<Rightarrow> bool" where
  "first_min_at data n k \<longleftrightarrow>
     k < n \<and> (\<forall>j<n. snd (data ! k) \<le> snd (data ! j)) \<and> (\<forall>j<k. snd (data ! k) < snd (data ! j))"

text \<open>The test and the position of a crossing, as the scan computes them.\<close>

definition crossing_cond :: "number \<Rightarrow> number \<Rightarrow> bool" where
  "crossing_cond prev v = ((prev < Fin 0 \<and> Fin 0 \<le> v) \<or> (Fin 0 < prev \<and> v \<le> Fin 0))"

definition crossing_pos :: "SampledSeries \<Rightarrow> nat \<Rightarrow> number" where
  "crossing_pos data i =
     fst (data ! i) +
       (\<bar>snd (data ! i)\<bar> / (\<bar>snd (data ! i)\<bar> + \<bar>snd (data ! Suc i)\<bar>)) *
         (fst (data ! Suc i) - fst (data ! i))"

text \<open>Position and value of station \<open>i\<close> of a series of finite numbers.\<close>

definition series_x :: "SampledSeries \<Rightarrow> nat \<Rightarrow> real" where
  "series_x data i = the_fin (fst (data ! i))"

definition series_v :: "SampledSeries \<Rightarrow> nat \<Rightarrow> real" where
  "series_v data i = the_fin (snd (data ! i))"

text \<open>
  A crossing between two consecutive values: the sign changes strictly, or a non-zero
  value is followed by zero.
\<close>

definition crossing_between :: "real \<Rightarrow> real \<Rightarrow> bool" where
  "crossing_between a b \<longleftrightarrow> (a < 0 \<and> 0 < b) \<or> (0 < a \<and> b < 0) \<or> (a \<noteq> 0 \<and> b = 0)"

text \<open>The crossing position, interpolated by the magnitudes of the two values.\<close>

definition crossing_x :: "real \<Rightarrow> real \<Rightarrow> real \<Rightarrow> real \<Rightarrow> real" where
  "crossing_x xi vi xj vj = xi + (\<bar>vi\<bar> / (\<bar>vi\<bar> + \<bar>vj\<bar>)) * (xj - xi)"

text \<open>
  Two series on which the properties are evaluated: one whose largest and smallest values
  are each attained twice, and one with a change of sign, a zero reached and a zero
  left.
\<close>

definition tie_series :: SampledSeries where
  "tie_series = [(Fin 0, Fin 1), (Fin 1, Fin 3), (Fin 2, Fin 3), (Fin 3, Fin 1)]"

definition crossing_series :: SampledSeries where
  "crossing_series = [(Fin 0, Fin (- 1)), (Fin 1, Fin 3), (Fin 2, Fin 0), (Fin 3, Fin 2)]"

subsection \<open>Loads and reactions\<close>

text \<open>
  A load of finite numbers: every field that is present is one.
\<close>

definition load_finite :: "Load \<Rightarrow> bool" where
  "load_finite l \<longleftrightarrow>
     is_fin (position l) \<and> is_fin (magnitude l) \<and>
     (case endPosition l of None \<Rightarrow> True | Some e \<Rightarrow> is_fin e) \<and>
     (case endMagnitude l of None \<Rightarrow> True | Some m \<Rightarrow> is_fin m)"

text \<open>
  The length of the span of a distributed load that carries its end position.
\<close>

definition span_length :: "Load \<Rightarrow> real" where
  "span_length l = the_fin (the (endPosition l)) - the_fin (position l)"

text \<open>
  The vertical resultant of a load as the specification words it, downward positive: the
  magnitude of a point load,
  \<open>w * l\<close> for a uniform load of intensity \<open>w\<close> over a span of length \<open>l\<close>,
  \<open>((w1 + w2) / 2) * l\<close> for a linearly varying one; a moment or a torque has none. An
  absent end magnitude is zero, as everywhere in the solver.
\<close>

definition load_resultant :: "Load \<Rightarrow> real" where
  "load_resultant l =
     (case load_type l of
        point \<Rightarrow> the_fin (magnitude l)
      | udl \<Rightarrow> the_fin (magnitude l) * span_length l
      | uvl \<Rightarrow> ((the_fin (magnitude l) + the_fin (or_else (endMagnitude l) (Fin 0))) / 2) * span_length l
      | moment \<Rightarrow> 0
      | torque \<Rightarrow> 0)"

text \<open>
  A distributed load carries its end position, and the span of a linearly varying load
  is not inverted.
\<close>

definition span_given :: "Load \<Rightarrow> bool" where
  "span_given l \<longleftrightarrow>
     (case load_type l of
        udl \<Rightarrow> endPosition l \<noteq> None
      | uvl \<Rightarrow> endPosition l \<noteq> None \<and> 0 \<le> span_length l
      | _ \<Rightarrow> True)"

text \<open>
  The moment about the point \<open>p\<close> that \<open>getTotalLoads\<close> adds for a load of finite
  numbers.
\<close>

definition load_moment_about :: "real \<Rightarrow> Load \<Rightarrow> real" where
  "load_moment_about p l =
     (let a = the_fin (position l); w1 = the_fin (magnitude l);
          L = the_fin (or_else (endPosition l) (position l)) - a;
          w2 = the_fin (or_else (endMagnitude l) (Fin 0))
      in case load_type l of
           point \<Rightarrow> w1 * (a - p)
         | udl \<Rightarrow> (w1 * L) * (a + L / 2 - p)
         | uvl \<Rightarrow>
             (if 0 < L then
                (((w1 + w2) / 2) * L) *
                  (a + (if 1 / 10 ^ 12 < w1 + w2 then (L / 3) * ((w1 + 2 * w2) / (w1 + w2)) else L / 2) - p)
              else 0)
         | moment \<Rightarrow> w1
         | torque \<Rightarrow> 0)"

text \<open>
  The sum of the vertical forces of a reaction set.
\<close>

definition sum_Fy :: "Reactions \<Rightarrow> number" where
  "sum_Fy reacs = fold (\<lambda>entry acc. acc + Fy (snd entry)) reacs (Fin 0)"

text \<open>
  The order of two supports of finite positions along the beam.
\<close>

definition position_le :: "Support \<Rightarrow> Support \<Rightarrow> bool" where
  "position_le a b \<longleftrightarrow> the_fin (sup_position a) \<le> the_fin (sup_position b)"

text \<open>
  Beams on which the properties are evaluated: three simple supports; two simple supports
  and a fixed one between them; two simple supports under a point, a uniform and a
  varying load; two simple supports at the same position.
\<close>

definition three_pin_beam :: BeamConfig where
  "three_pin_beam =
     \<lparr>beam_length = Fin 10, beam_E = Fin 200000000000, beam_G = Fin 80000000000,
      beam_I = Fin (1 / 10000), beam_J = Fin (1 / 10000), beam_depth = Fin (3 / 10),
      supports = [\<lparr>sup_id = ''A'', sup_type = pin, sup_position = Fin 0\<rparr>,
                  \<lparr>sup_id = ''B'', sup_type = roller, sup_position = Fin 5\<rparr>,
                  \<lparr>sup_id = ''C'', sup_type = roller, sup_position = Fin 10\<rparr>],
      loads = [\<lparr>load_id = ''P'', load_type = point, position = Fin 7, magnitude = Fin 10,
                endMagnitude = None, endPosition = None\<rparr>]\<rparr>"

definition propped_beam :: BeamConfig where
  "propped_beam =
     \<lparr>beam_length = Fin 10, beam_E = Fin 200000000000, beam_G = Fin 80000000000,
      beam_I = Fin (1 / 10000), beam_J = Fin (1 / 10000), beam_depth = Fin (3 / 10),
      supports = [\<lparr>sup_id = ''A'', sup_type = pin, sup_position = Fin 0\<rparr>,
                  \<lparr>sup_id = ''B'', sup_type = roller, sup_position = Fin 10\<rparr>,
                  \<lparr>sup_id = ''F'', sup_type = fixed, sup_position = Fin 5\<rparr>],
      loads = [\<lparr>load_id = ''P'', load_type = point, position = Fin 7, magnitude = Fin 10,
                endMagnitude = None, endPosition = None\<rparr>]\<rparr>"

definition mixed_beam :: BeamConfig where
  "mixed_beam =
     \<lparr>beam_length = Fin 10, beam_E = Fin 200000000000, beam_G = Fin 80000000000,
      beam_I = Fin (1 / 10000), beam_J = Fin (1 / 10000), beam_depth = Fin (3 / 10),
      supports = [\<lparr>sup_id = ''A'', sup_type = pin, sup_position = Fin 0\<rparr>,
                  \<lparr>sup_id = ''B'', sup_type = roller, sup_position = Fin 10\<rparr>],
      loads = [\<lparr>load_id = ''P'', load_type = point, position = Fin 7, magnitude = Fin 10,
                endMagnitude = None, endPosition = None\<rparr>,
               \<lparr>load_id = ''U'', load_type = udl, position = Fin 1, magnitude = Fin 2,
                endMagnitude = None, endPosition = Some (Fin 4)\<rparr>,
               \<lparr>load_id = ''V'', load_type = uvl, position = Fin 2, magnitude = Fin 1,
                endMagnitude = Some (Fin 3), endPosition = Some (Fin 8)\<rparr>]\<rparr>"

definition coincident_beam :: BeamConfig where
  "coincident_beam =
     \<lparr>beam_length = Fin 10, beam_E = Fin 200000000000, beam_G = Fin 80000000000,
      beam_I = Fin (1 / 10000), beam_J = Fin (1 / 10000), beam_depth = Fin (3 / 10),
      supports = [\<lparr>sup_id = ''A'', sup_type = pin, sup_position = Fin 5\<rparr>,
                  \<lparr>sup_id = ''B'', sup_type = roller, sup_position = Fin 5\<rparr>],
      loads = [\<lparr>load_id = ''P'', load_type = point, position = Fin 7, magnitude = Fin 10,
                endMagnitude = None, endPosition = None\<rparr>]\<rparr>"

text \<open>
  The running maximum of absolute values that the station loops keep.
\<close>

definition running_max :: "number \<Rightarrow> number list \<Rightarrow> number" where
  "running_max m vs = fold (\<lambda>v m. if m < \<bar>v\<bar> then \<bar>v\<bar> else m) vs m"

text \<open>
  The station spacing, the reactions, and the shear force and bending moment of a beam at
  station \<open>i\<close>, as \<open>solveBeam\<close> computes them.
\<close>

definition beam_dx :: "BeamConfig \<Rightarrow> number" where
  "beam_dx beam = beam_length beam / Fin (real points)"

definition beam_reactions :: "BeamConfig \<Rightarrow> Reactions" where
  "beam_reactions beam = fst (solveReactions beam [Step_ProblemSetup, Step_AppliedLoads])"

definition shear_at :: "BeamConfig \<Rightarrow> nat \<Rightarrow> number" where
  "shear_at beam i =
     fst (section_forces (beam_length beam) (effective_loads beam (beam_reactions beam))
            (station (beam_dx beam) i))"

definition moment_at :: "BeamConfig \<Rightarrow> nat \<Rightarrow> number" where
  "moment_at beam i =
     snd (section_forces (beam_length beam) (effective_loads beam (beam_reactions beam))
            (station (beam_dx beam) i))"

text \<open>
  A linearly varying load that acts upward, from 2 to 4 per unit length over a span of
  length 3, and the same load acting downward.
\<close>

definition uvl_up :: Load where
  "uvl_up = \<lparr>load_id = ''W'', load_type = uvl, position = Fin 0, magnitude = Fin (- 2),
             endMagnitude = Some (Fin (- 4)), endPosition = Some (Fin 3)\<rparr>"

definition uvl_down :: Load where
  "uvl_down = \<lparr>load_id = ''W'', load_type = uvl, position = Fin 0, magnitude = Fin 2,
               endMagnitude = Some (Fin 4), endPosition = Some (Fin 3)\<rparr>"

text \<open>
  A cantilever of length 2, fixed at 0, under a uniform load of intensity 1 that starts
  at 0 and carries no end position.
\<close>

definition open_udl_beam :: BeamConfig where
  "open_udl_beam =
     \<lparr>beam_length = Fin 2, beam_E = Fin 200000000000, beam_G = Fin 80000000000,
      beam_I = Fin (1 / 10000), beam_J = Fin (1 / 10000), beam_depth = Fin (3 / 10),
      supports = [\<lparr>sup_id = ''A'', sup_type = fixed, sup_position = Fin 0\<rparr>],
      loads = [\<lparr>load_id = ''U'', load_type = udl, position = Fin 0, magnitude = Fin 1,
                endMagnitude = None, endPosition = None\<rparr>]\<rparr>"

subsection \<open>Torsion\<close>

text \<open>
  The torque loads of a beam, the reaction torque (minus the sum of all torque magnitudes
  if a fixed support sits exactly at position 0, and zero otherwise) and the internal
  torque at \<open>x\<close>: the reaction torque plus the magnitudes of the torque loads at positions
  up to \<open>x\<close>.
\<close>

definition torque_loads :: "BeamConfig \<Rightarrow> Load list" where
  "torque_loads beam = filter (\<lambda>l. load_type l = torque) (loads beam)"

definition torque_reaction :: "BeamConfig \<Rightarrow> real" where
  "torque_reaction beam =
     (if \<exists>s\<in>set (supports beam). sup_type s = fixed \<and> sup_position s = Fin 0
      then - (\<Sum>l\<leftarrow>torque_loads beam. the_fin (magnitude l))
      else 0)"

definition torque_at :: "BeamConfig \<Rightarrow> real \<Rightarrow> real" where
  "torque_at beam x =
     torque_reaction beam +
     (\<Sum>l\<leftarrow>filter (\<lambda>l. the_fin (position l) \<le> x) (torque_loads beam). the_fin (magnitude l))"

text \<open>
  The angle of twist accumulated forward from station 0, for the internal torque \<open>T i\<close>
  at station \<open>i\<close>.
\<close>

fun twist_phi :: "(nat \<Rightarrow> number) \<Rightarrow> number \<Rightarrow> number \<Rightarrow> nat \<Rightarrow> number" where
  "twist_phi T GJ dx 0 = Fin 0"
| "twist_phi T GJ dx (Suc i) = twist_phi T GJ dx i + (T (Suc i) / GJ) * dx"

text \<open>
  A cantilever fixed at 0 under two torques, 1000 at 4 and 600 at the free end.
\<close>

definition torque_beam :: BeamConfig where
  "torque_beam =
     \<lparr>beam_length = Fin 10, beam_E = Fin 200000000000, beam_G = Fin 80000000000,
      beam_I = Fin (1 / 10000), beam_J = Fin (1 / 10000), beam_depth = Fin (3 / 10),
      supports = [\<lparr>sup_id = ''A'', sup_type = fixed, sup_position = Fin 0\<rparr>],
      loads = [\<lparr>load_id = ''T1'', load_type = torque, position = Fin 4, magnitude = Fin 1000,
                endMagnitude = None, endPosition = None\<rparr>,
               \<lparr>load_id = ''T2'', load_type = torque, position = Fin 10, magnitude = Fin 600,
                endMagnitude = None, endPosition = None\<rparr>]\<rparr>"

subsection \<open>Deflection\<close>

text \<open>
  The two running integrals of a beam, \<open>S\<close> and \<open>D\<close>, and the index of the station
  nearest a position as the solver computes it.
\<close>

definition slopeEI_of :: "BeamConfig \<Rightarrow> number list" where
  "slopeEI_of beam = running_integral (beam_dx beam) (map snd (bendingMoment (solveBeam beam)))"

definition D_partial_of :: "BeamConfig \<Rightarrow> number list" where
  "D_partial_of beam = running_integral (beam_dx beam) (slopeEI_of beam)"

definition station_index :: "BeamConfig \<Rightarrow> number \<Rightarrow> number" where
  "station_index beam p = Math_round ((p / beam_length beam) * Fin (real points))"

text \<open>
  The series that is zero at every station.
\<close>

definition zero_series :: "BeamConfig \<Rightarrow> SampledSeries" where
  "zero_series beam = map (\<lambda>i. (station (beam_dx beam) i, Fin 0)) [0..<Suc points]"

text \<open>
  The beam of the editor's start screen, its supports listed from right to left, and the
  same beam with a single support.
\<close>

definition simple_beam :: BeamConfig where
  "simple_beam =
     \<lparr>beam_length = Fin 10, beam_E = Fin 200000000000, beam_G = Fin 80000000000,
      beam_I = Fin (1 / 10000), beam_J = Fin (1 / 10000), beam_depth = Fin (3 / 10),
      supports = [\<lparr>sup_id = ''s2'', sup_type = roller, sup_position = Fin 10\<rparr>,
                  \<lparr>sup_id = ''s1'', sup_type = pin, sup_position = Fin 0\<rparr>],
      loads = [\<lparr>load_id = ''l1'', load_type = point, position = Fin 5, magnitude = Fin 10000,
                endMagnitude = None, endPosition = None\<rparr>]\<rparr>"

definition one_pin_beam :: BeamConfig where
  "one_pin_beam =
     \<lparr>beam_length = Fin 10, beam_E = Fin 200000000000, beam_G = Fin 80000000000,
      beam_I = Fin (1 / 10000), beam_J = Fin (1 / 10000), beam_depth = Fin (3 / 10),
      supports = [\<lparr>sup_id = ''s1'', sup_type = pin, sup_position = Fin 0\<rparr>],
      loads = [\<lparr>load_id = ''l1'', load_type = point, position = Fin 5, magnitude = Fin 10000,
                endMagnitude = None, endPosition = None\<rparr>]\<rparr>"

subsection \<open>Point load at midspan\<close>

text \<open>
  The bending moment at station \<open>i\<close> of a beam of length \<open>L\<close> on two end supports under a
  point load \<open>P\<close> at midspan.
\<close>

definition midspan_moment :: "real \<Rightarrow> real \<Rightarrow> nat \<Rightarrow> real" where
  "midspan_moment L P i =
     (if real i * (L / 500) < L / 2 then P * (real i * (L / 500)) / 2
      else P * (L - real i * (L / 500)) / 2)"

text \<open>
  A beam of length 1 on two end supports under a point load of \<open>1e-10\<close> at midspan.
\<close>

definition tiny_load_beam :: BeamConfig where
  "tiny_load_beam =
     \<lparr>beam_length = Fin 1, beam_E = Fin 200000000000, beam_G = Fin 80000000000,
      beam_I = Fin (1 / 10000), beam_J = Fin (1 / 10000), beam_depth = Fin (3 / 10),
      supports = [\<lparr>sup_id = ''s1'', sup_type = pin, sup_position = Fin 0\<rparr>,
                  \<lparr>sup_id = ''s2'', sup_type = roller, sup_position = Fin 1\<rparr>],
      loads = [\<lparr>load_id = ''l1'', load_type = point, position = Fin (1 / 2),
                magnitude = Fin (1 / 10 ^ 10), endMagnitude = None, endPosition = None\<rparr>]\<rparr>"

section \<open>Finite numbers\<close>

lemma Fin_minus [simp]: "Fin a - Fin b = Fin (a - b)"
  by (simp add: minus_number_def)

lemma is_fin_conv: "is_fin a \<longleftrightarrow> (\<exists>r. a = Fin r)"
  by (cases a) simp_all

lemma Fin_the_fin: "is_fin a \<Longrightarrow> Fin (the_fin a) = a"
  by (cases a) simp_all

section \<open>Properties of the chart inference\<close>


lemma computeChartInference_init:
  "computeChartInference data = fold (chart_step data) [0..<length data] chart_init"
  by (simp add: computeChartInference_def chart_init_def)

lemma maxValue_chart_step:
  "maxValue (chart_step data i st) = (if maxValue st < snd (data ! i) then snd (data ! i) else maxValue st)"
  "maxPosition (chart_step data i st) = (if maxValue st < snd (data ! i) then fst (data ! i) else maxPosition st)"
  by (simp_all add: chart_step_def Let_def)

lemma minValue_chart_step:
  "minValue (chart_step data i st) = (if snd (data ! i) < minValue st then snd (data ! i) else minValue st)"
  "minPosition (chart_step data i st) = (if snd (data ! i) < minValue st then fst (data ! i) else minPosition st)"
  by (simp_all add: chart_step_def Let_def)

lemma chart_max_invariant:
  assumes fin: "\<forall>j<length data. is_fin (snd (data ! j))"
  shows "0 < n \<Longrightarrow> n \<le> length data \<Longrightarrow>
    \<exists>k. first_max_at data n k \<and>
        maxValue (fold (chart_step data) [0..<n] chart_init) = snd (data ! k) \<and>
        maxPosition (fold (chart_step data) [0..<n] chart_init) = fst (data ! k)"
proof (induction n)
  case 0 then show ?case by simp
next
  case (Suc n)
  define v where "v j = the_fin (snd (data ! j))" for j
  have v: "\<And>j. j < length data \<Longrightarrow> snd (data ! j) = Fin (v j)"
    using fin by (simp add: v_def Fin_the_fin)
  show ?case
  proof (cases "n = 0")
    case True
    have "0 < length data" using Suc.prems by (cases data) simp_all
    then have v0: "snd (data ! 0) = Fin (v 0)" by (rule v)
    have fm: "first_max_at data (Suc 0) 0" by (simp add: first_max_at_def v0)
    show ?thesis using True v0 fm
      by (intro exI[of _ 0]) (simp add: maxValue_chart_step chart_init_def)
  next
    case False
    with Suc obtain k where k: "first_max_at data n k"
      "maxValue (fold (chart_step data) [0..<n] chart_init) = snd (data ! k)"
      "maxPosition (fold (chart_step data) [0..<n] chart_init) = fst (data ! k)"
      by auto
    have kn: "k < n" using k(1) by (simp add: first_max_at_def)
    have le: "\<And>j. j < n \<Longrightarrow> v j \<le> v k" using k(1) v Suc.prems kn by (simp add: first_max_at_def)
    have lt: "\<And>j. j < k \<Longrightarrow> v j < v k" using k(1) v Suc.prems kn by (simp add: first_max_at_def)
    show ?thesis
    proof (cases "v k < v n")
      case True
      have "first_max_at data (Suc n) n"
        using True le lt v Suc.prems kn
        by (auto simp: first_max_at_def less_Suc_eq intro: order.strict_trans1 less_imp_le)
      then show ?thesis using True k v Suc.prems kn
        by (intro exI[of _ n]) (simp add: maxValue_chart_step)
    next
      case False
      have "first_max_at data (Suc n) k"
        using False le lt v Suc.prems kn
        by (auto simp: first_max_at_def less_Suc_eq)
      then show ?thesis using False k v Suc.prems kn
        by (intro exI[of _ k]) (simp add: maxValue_chart_step)
    qed
  qed
qed

lemma chart_min_invariant:
  assumes fin: "\<forall>j<length data. is_fin (snd (data ! j))"
  shows "0 < n \<Longrightarrow> n \<le> length data \<Longrightarrow>
    \<exists>k. first_min_at data n k \<and>
        minValue (fold (chart_step data) [0..<n] chart_init) = snd (data ! k) \<and>
        minPosition (fold (chart_step data) [0..<n] chart_init) = fst (data ! k)"
proof (induction n)
  case 0 then show ?case by simp
next
  case (Suc n)
  define v where "v j = the_fin (snd (data ! j))" for j
  have v: "\<And>j. j < length data \<Longrightarrow> snd (data ! j) = Fin (v j)"
    using fin by (simp add: v_def Fin_the_fin)
  show ?case
  proof (cases "n = 0")
    case True
    have "0 < length data" using Suc.prems by (cases data) simp_all
    then have v0: "snd (data ! 0) = Fin (v 0)" by (rule v)
    have fm: "first_min_at data (Suc 0) 0" by (simp add: first_min_at_def v0)
    show ?thesis using True v0 fm
      by (intro exI[of _ 0]) (simp add: minValue_chart_step chart_init_def)
  next
    case False
    with Suc obtain k where k: "first_min_at data n k"
      "minValue (fold (chart_step data) [0..<n] chart_init) = snd (data ! k)"
      "minPosition (fold (chart_step data) [0..<n] chart_init) = fst (data ! k)"
      by auto
    have kn: "k < n" using k(1) by (simp add: first_min_at_def)
    have le: "\<And>j. j < n \<Longrightarrow> v k \<le> v j" using k(1) v Suc.prems kn by (simp add: first_min_at_def)
    have lt: "\<And>j. j < k \<Longrightarrow> v k < v j" using k(1) v Suc.prems kn by (simp add: first_min_at_def)
    show ?thesis
    proof (cases "v n < v k")
      case True
      have "first_min_at data (Suc n) n"
        using True le lt v Suc.prems kn
        by (auto simp: first_min_at_def less_Suc_eq intro: order.strict_trans2 less_imp_le)
      then show ?thesis using True k v Suc.prems kn
        by (intro exI[of _ n]) (simp add: minValue_chart_step)
    next
      case False
      have "first_min_at data (Suc n) k"
        using False le lt v Suc.prems kn
        by (auto simp: first_min_at_def less_Suc_eq)
      then show ?thesis using False k v Suc.prems kn
        by (intro exI[of _ k]) (simp add: minValue_chart_step)
    qed
  qed
qed

text \<open>
  Claim C8. For a non-empty series of finite values, the maximum and its position reported
  by \<open>computeChartInference\<close> are those of the first station that attains the largest
  value, and the minimum and its position those of the first station that attains the
  smallest: a later station with an equal value overwrites neither.
\<close>

theorem chart_extremes_first_occurrence:
  assumes "data \<noteq> []" and "\<forall>p\<in>set data. is_fin (snd p)"
  shows "(\<exists>k. first_max_at data (length data) k \<and>
            maxValue (computeChartInference data) = snd (data ! k) \<and>
            maxPosition (computeChartInference data) = fst (data ! k)) \<and>
         (\<exists>k. first_min_at data (length data) k \<and>
            minValue (computeChartInference data) = snd (data ! k) \<and>
            minPosition (computeChartInference data) = fst (data ! k))"
proof -
  have fin: "\<forall>j<length data. is_fin (snd (data ! j))" using assms(2) by simp
  have len: "0 < length data" using assms(1) by simp
  show ?thesis
    using chart_max_invariant[OF fin len] chart_min_invariant[OF fin len]
    by (simp add: computeChartInference_init)
qed

text \<open>
  The theorem at a series in which stations 1 and 2 tie for the maximum and stations 0
  and 3 for the minimum.
\<close>

theorem chart_extremes_first_occurrence_witness:
  "maxValue (computeChartInference tie_series) = Fin 3 \<and>
   maxPosition (computeChartInference tie_series) = Fin 1 \<and>
   minValue (computeChartInference tie_series) = Fin 1 \<and>
   minPosition (computeChartInference tie_series) = Fin 0"
proof -
  have h1: "tie_series \<noteq> []" by (simp add: tie_series_def)
  have h2: "\<forall>p\<in>set tie_series. is_fin (snd p)" by (simp add: tie_series_def)
  have len: "length tie_series = 4" by (simp add: tie_series_def)
  have nth: "snd (tie_series ! 0) = Fin 1" "snd (tie_series ! 1) = Fin 3"
    "snd (tie_series ! 2) = Fin 3" "snd (tie_series ! 3) = Fin 1"
    "fst (tie_series ! 0) = Fin 0" "fst (tie_series ! 1) = Fin 1"
    by (simp_all add: tie_series_def)
  from chart_extremes_first_occurrence[OF h1 h2] obtain k m where
    k: "first_max_at tie_series 4 k"
       "maxValue (computeChartInference tie_series) = snd (tie_series ! k)"
       "maxPosition (computeChartInference tie_series) = fst (tie_series ! k)" and
    m: "first_min_at tie_series 4 m"
       "minValue (computeChartInference tie_series) = snd (tie_series ! m)"
       "minPosition (computeChartInference tie_series) = fst (tie_series ! m)"
    unfolding len by blast
  have "k = 1"
  proof -
    have a: "k < 4" "snd (tie_series ! 1) \<le> snd (tie_series ! k)"
      "\<forall>j<k. snd (tie_series ! j) < snd (tie_series ! k)"
      using k(1) by (simp_all add: first_max_at_def)
    from a(1) consider "k = 0" | "k = 1" | "k = 2" | "k = 3" by linarith
    then show ?thesis
    proof cases
      case 1 with a(2) show ?thesis by (simp add: tie_series_def)
    next
      case 2 then show ?thesis .
    next
      case 3 with a(3) have "snd (tie_series ! 1) < snd (tie_series ! 2)" by simp
      then show ?thesis by (simp add: tie_series_def)
    next
      case 4 with a(2) show ?thesis by (simp add: tie_series_def)
    qed
  qed
  moreover have "m = 0"
  proof -
    have a: "m < 4" "snd (tie_series ! m) \<le> snd (tie_series ! 0)"
      "\<forall>j<m. snd (tie_series ! m) < snd (tie_series ! j)"
      using m(1) by (simp_all add: first_min_at_def)
    from a(1) consider "m = 0" | "m = 1" | "m = 2" | "m = 3" by linarith
    then show ?thesis
    proof cases
      case 1 then show ?thesis .
    next
      case 2 with a(2) show ?thesis by (simp add: tie_series_def)
    next
      case 3 with a(2) show ?thesis by (simp add: tie_series_def)
    next
      case 4 with a(3) have "snd (tie_series ! 3) < snd (tie_series ! 0)" by simp
      then show ?thesis by (simp add: tie_series_def)
    qed
  qed
  ultimately show ?thesis using k(2,3) m(2,3) by (simp add: tie_series_def)
qed

lemma zeroCrossings_chart_step:
  "zeroCrossings (chart_step data i st) =
     zeroCrossings st @ (if 0 < i \<and> crossing_cond (snd (data ! (i - 1))) (snd (data ! i)) then [crossing_pos data (i - 1)] else [])"
  by (simp add: chart_step_def Let_def crossing_cond_def crossing_pos_def)

lemma zeroCrossings_fold:
  "zeroCrossings (fold (chart_step data) [0..<n] st) =
     zeroCrossings st @ map (crossing_pos data) (filter (\<lambda>i. crossing_cond (snd (data ! i)) (snd (data ! Suc i))) [0..<n - 1])"
proof (induction n)
  case 0 show ?case by simp
next
  case (Suc n)
  show ?case
  proof (cases n)
    case 0 then show ?thesis by (simp add: zeroCrossings_chart_step)
  next
    case (Suc m)
    then show ?thesis using Suc.IH by (simp add: zeroCrossings_chart_step)
  qed
qed

lemma crossing_cond_Fin: "crossing_cond (Fin a) (Fin b) = crossing_between a b"
  by (auto simp: crossing_cond_def crossing_between_def)

lemma crossing_pos_Fin:
  assumes "data ! i = (Fin xi, Fin vi)" "data ! Suc i = (Fin xj, Fin vj)" "crossing_between vi vj"
  shows "crossing_pos data i = Fin (crossing_x xi vi xj vj)"
proof -
  have "\<bar>vi\<bar> + \<bar>vj\<bar> \<noteq> 0" using assms(3) by (auto simp: crossing_between_def)
  then show ?thesis using assms(1,2) by (simp add: crossing_pos_def crossing_x_def)
qed

text \<open>
  Claim C4, amended. For a series of finite positions and values, a crossing is recorded
  between stations \<open>i\<close> and \<open>i + 1\<close> exactly when the value at \<open>i\<close> is not zero and
  the value at \<open>i + 1\<close> is zero or of the opposite sign; a pair that leaves zero records
  none. The recorded position is \<open>x\<^sub>i + |v\<^sub>i| / (|v\<^sub>i| + |v\<^sub>i\<^sub>+\<^sub>1|) * (x\<^sub>i\<^sub>+\<^sub>1 - x\<^sub>i)\<close>, and
  the crossings are listed in station order.
\<close>

theorem chart_zero_crossings:
  assumes "\<forall>p\<in>set data. is_fin (fst p) \<and> is_fin (snd p)"
  shows "zeroCrossings (computeChartInference data) =
           map (\<lambda>i. Fin (crossing_x (series_x data i) (series_v data i)
                              (series_x data (Suc i)) (series_v data (Suc i))))
             (filter (\<lambda>i. crossing_between (series_v data i) (series_v data (Suc i)))
                [0..<length data - 1])"
proof -
  have pt: "data ! i = (Fin (series_x data i), Fin (series_v data i))" if "i < length data" for i
  proof -
    have "is_fin (fst (data ! i)) \<and> is_fin (snd (data ! i))" using assms that by simp
    then show ?thesis by (simp add: series_x_def series_v_def Fin_the_fin prod_eq_iff)
  qed
  have c: "crossing_cond (snd (data ! i)) (snd (data ! Suc i)) =
             crossing_between (series_v data i) (series_v data (Suc i))"
    if "i \<in> set [0..<length data - 1]" for i
  proof -
    have "i < length data" "Suc i < length data" using that by auto
    then show ?thesis using pt[of i] pt[of "Suc i"] by (simp add: crossing_cond_Fin)
  qed
  have p: "crossing_pos data i =
             Fin (crossing_x (series_x data i) (series_v data i)
                    (series_x data (Suc i)) (series_v data (Suc i)))"
    if "i \<in> set (filter (\<lambda>i. crossing_between (series_v data i) (series_v data (Suc i)))
                    [0..<length data - 1])" for i
  proof -
    have "i < length data" "Suc i < length data"
      and "crossing_between (series_v data i) (series_v data (Suc i))" using that by auto
    then show ?thesis using pt[of i] pt[of "Suc i"] by (intro crossing_pos_Fin) simp_all
  qed
  have "zeroCrossings (computeChartInference data) =
          map (crossing_pos data)
            (filter (\<lambda>i. crossing_cond (snd (data ! i)) (snd (data ! Suc i))) [0..<length data - 1])"
    by (simp add: computeChartInference_init zeroCrossings_fold chart_init_def)
  also have "filter (\<lambda>i. crossing_cond (snd (data ! i)) (snd (data ! Suc i))) [0..<length data - 1] =
        filter (\<lambda>i. crossing_between (series_v data i) (series_v data (Suc i))) [0..<length data - 1]"
    using c by (intro filter_cong) simp_all
  also have "map (crossing_pos data) \<dots> =
        map (\<lambda>i. Fin (crossing_x (series_x data i) (series_v data i)
                              (series_x data (Suc i)) (series_v data (Suc i)))) \<dots>"
    using p by (intro map_cong) simp_all
  finally show ?thesis .
qed

text \<open>
  The theorem at the values \<open>-1, 3, 0, 2\<close>: one crossing by a change of sign, one by
  reaching zero, none on leaving it.
\<close>

theorem chart_zero_crossings_witness:
  "zeroCrossings (computeChartInference crossing_series) = [Fin (1 / 4), Fin 2]"
proof -
  have h: "\<forall>p\<in>set crossing_series. is_fin (fst p) \<and> is_fin (snd p)"
    by (simp add: crossing_series_def)
  have u: "[0..<3] = [0, 1, 2]" by (simp add: upt_rec)
  show ?thesis using chart_zero_crossings[OF h]
    by (simp add: crossing_series_def series_x_def series_v_def crossing_between_def crossing_x_def u)
qed

text \<open>
  Claim C4 as stated fails on the series \<open>(0, 0), (1, 1)\<close>: the value leaves zero
  between the two stations, and no crossing is recorded.
\<close>

theorem chart_leaving_zero_counterexample:
  "zeroCrossings (computeChartInference [(Fin 0, Fin 0), (Fin 1, Fin 1)]) = []"
  by (simp add: computeChartInference_def chart_step_def Let_def)

section \<open>Properties of the reaction solver and of the load reductions\<close>

lemma set_insort_position: "set (insort_position s ts) = insert s (set ts)"
  by (induction ts) auto

lemma set_sort_position: "set (sort_position xs) = set xs"
  by (induction xs) (simp_all add: sort_position_def set_insort_position)

lemma length_insort_position: "length (insort_position s ts) = Suc (length ts)"
  by (induction ts) auto

lemma length_sort_position: "length (sort_position xs) = length xs"
  by (induction xs) (simp_all add: sort_position_def length_insort_position)

lemma mset_insort_position: "mset (insort_position s ts) = add_mset s (mset ts)"
  by (induction ts) auto

lemma mset_sort_position: "mset (sort_position xs) = mset xs"
  by (induction xs) (simp_all add: sort_position_def mset_insort_position)

lemma find_sort_position_None:
  "find P (sort_position xs) = None \<longleftrightarrow> (\<forall>s\<in>set xs. \<not> P s)"
  by (auto simp: find_None_iff set_sort_position)

lemma find_SomeD: "find P xs = Some x \<Longrightarrow> x \<in> set xs \<and> P x"
  by (induction xs) (auto split: if_splits)

lemma total_load_step_fin:
  assumes "load_finite l" "span_given l"
  shows "total_load_step (Fin p) l (Fin F, Fin M) =
           (Fin (F + load_resultant l), Fin (M + load_moment_about p l))"
proof -
  obtain a w where aw: "position l = Fin a" "magnitude l = Fin w"
    using assms(1) by (auto simp: load_finite_def is_fin_conv)
  show ?thesis
  proof (cases "load_type l")
    case point
    then show ?thesis using aw
      by (simp add: total_load_step_def load_resultant_def load_moment_about_def)
  next
    case udl
    then obtain e where e: "endPosition l = Some (Fin e)"
      using assms by (auto simp: span_given_def load_finite_def is_fin_conv)
    show ?thesis using udl aw e
      by (simp add: total_load_step_def load_resultant_def load_moment_about_def span_length_def Let_def)
  next
    case uvl
    then obtain e where e: "endPosition l = Some (Fin e)" and ge: "a \<le> e"
      using assms aw by (auto simp: span_given_def load_finite_def is_fin_conv span_length_def)
    obtain w2 where w2: "or_else (endMagnitude l) (Fin 0) = Fin w2"
      using assms(1) by (cases "endMagnitude l") (auto simp: load_finite_def is_fin_conv)
    show ?thesis
    proof (cases "a < e")
      case True
      then show ?thesis using uvl aw e w2
        by (simp add: total_load_step_def load_resultant_def load_moment_about_def span_length_def Let_def eps12_def)
    next
      case False
      then have "e = a" using ge by simp
      then show ?thesis using uvl aw e w2
        by (simp add: total_load_step_def load_resultant_def load_moment_about_def span_length_def Let_def)
    qed
  next
    case moment
    then show ?thesis using aw
      by (simp add: total_load_step_def load_resultant_def load_moment_about_def)
  next
    case torque
    then show ?thesis using aw
      by (simp add: total_load_step_def load_resultant_def load_moment_about_def)
  qed
qed

lemma fold_total_load_step_fin:
  assumes "\<forall>l\<in>set lds. load_finite l \<and> span_given l"
  shows "fold (total_load_step (Fin p)) lds (Fin F, Fin M) =
           (Fin (F + (\<Sum>l\<leftarrow>lds. load_resultant l)), Fin (M + (\<Sum>l\<leftarrow>lds. load_moment_about p l)))"
  using assms
proof (induction lds arbitrary: F M)
  case Nil
  then show ?case by simp
next
  case (Cons l lds)
  then show ?case by (simp add: total_load_step_fin add.assoc)
qed

lemma getTotalLoads_fin:
  assumes "\<forall>l\<in>set lds. load_finite l \<and> span_given l"
  shows "getTotalLoads lds (Fin p) stps =
           ((Fin (\<Sum>l\<leftarrow>lds. load_resultant l), Fin (\<Sum>l\<leftarrow>lds. load_moment_about p l)),
            stps @ [Step_LoadResultants])"
  using fold_total_load_step_fin[OF assms, of p 0 0] by (simp add: getTotalLoads_def)

lemma sorted_insort_position:
  assumes "is_fin (sup_position s)" "\<forall>t\<in>set ts. is_fin (sup_position t)"
    and "sorted_wrt position_le ts"
  shows "sorted_wrt position_le (insort_position s ts)"
  using assms(2,3)
proof (induction ts)
  case Nil
  then show ?case by simp
next
  case (Cons t ts)
  obtain ps pt where p: "sup_position s = Fin ps" "sup_position t = Fin pt"
    using assms(1) Cons.prems(1) by (auto simp: is_fin_conv)
  show ?case
  proof (cases "pt < ps")
    case True
    then have "position_le t s" using p by (simp add: position_le_def)
    then show ?thesis using True p Cons
      by (auto simp: set_insort_position)
  next
    case False
    then have st: "position_le s t" using p by (simp add: position_le_def)
    have "position_le s u" if "u \<in> set ts" for u
      using st Cons.prems(2) that by (auto simp: position_le_def)
    then show ?thesis using False p st Cons.prems(2) by auto
  qed
qed

lemma sorted_sort_position:
  assumes "\<forall>t\<in>set xs. is_fin (sup_position t)"
  shows "sorted_wrt position_le (sort_position xs)"
  using assms
proof (induction xs)
  case Nil
  then show ?case by (simp add: sort_position_def)
next
  case (Cons x xs)
  have "sorted_wrt position_le (insort_position x (sort_position xs))"
    using Cons by (intro sorted_insort_position) (simp_all add: set_sort_position)
  then show ?case by (simp add: sort_position_def)
qed

lemma find_sorted_least:
  assumes "sorted_wrt position_le xs" "find P xs = Some x"
  shows "\<forall>y\<in>set xs. P y \<longrightarrow> position_le x y"
  using assms
proof (induction xs)
  case Nil
  then show ?case by simp
next
  case (Cons a xs)
  then show ?case by (auto simp: position_le_def split: if_splits)
qed

lemma obj_set_not_Nil: "obj_set k v al \<noteq> []"
  by (cases al) (auto split: if_splits)

lemma solveReactions_fixed:
  assumes "find (\<lambda>s. sup_type s = fixed) (sort_position (supports beam)) = Some fx"
  shows "solveReactions beam stps =
           ([(sup_id fx, \<lparr>Fy = fst (fst (getTotalLoads (loads beam) (sup_position fx) stps)),
                          Mz = Some (snd (fst (getTotalLoads (loads beam) (sup_position fx) stps)))\<rparr>)],
            stps @ [Step_LoadResultants, Step_ReactionsCantilever])"
  using assms by (simp add: solveReactions_def getTotalLoads_def Let_def split: prod.splits)

lemma solveReactions_unsolvable:
  assumes "\<forall>s\<in>set (supports beam). sup_type s \<noteq> fixed" "length (supports beam) \<noteq> 2"
  shows "solveReactions beam stps = ([], stps @ [Step_ReactionsUnableToSolve])"
proof -
  have f: "find (\<lambda>s. sup_type s = fixed) (sort_position (supports beam)) = None"
    using assms(1) by (simp add: find_sort_position_None)
  have "length (sort_position (supports beam)) \<noteq> 2"
    using assms(2) by (simp add: length_sort_position)
  then have "\<nexists>s1 s2. sort_position (supports beam) = [s1, s2]" by auto
  then show ?thesis using f
    by (auto simp: solveReactions_def Let_def split: list.splits)
qed

lemma solveReactions_two:
  assumes "\<forall>s\<in>set (supports beam). sup_type s \<noteq> fixed" "sort_position (supports beam) = [s1, s2]"
  shows "solveReactions beam stps =
    (let sumFy = fst (fst (getTotalLoads (loads beam) (sup_position s1) stps));
         sumM = snd (fst (getTotalLoads (loads beam) (sup_position s1) stps));
         R_s2 = sumM / (sup_position s2 - sup_position s1)
     in (obj_set (sup_id s2) \<lparr>Fy = R_s2, Mz = None\<rparr> [(sup_id s1, \<lparr>Fy = sumFy - R_s2, Mz = None\<rparr>)],
         stps @ [Step_LoadResultants, Step_ReactionsSimplySupported]))"
proof -
  have f: "find (\<lambda>s. sup_type s = fixed) (sort_position (supports beam)) = None"
    using assms(1) by (simp add: find_sort_position_None)
  show ?thesis using f assms(2)
    by (simp add: solveReactions_def getTotalLoads_def Let_def split: prod.splits)
qed

text \<open>
  Claim C1, amended. \<open>solveReactions\<close> returns the empty reaction set, with the note that
  the reactions cannot be solved, exactly when no support is fixed and the number of
  supports is not two. As soon as some support is fixed, alone or beside others, the
  cantilever closed form is applied: the only reaction is that of a fixed support, the
  one of least position among the fixed ones, with the load resultants about its position
  as force and moment.
\<close>

theorem solveReactions_classification:
  "((\<forall>s\<in>set (supports beam). sup_type s \<noteq> fixed) \<and> length (supports beam) \<noteq> 2 \<longrightarrow>
      solveReactions beam stps = ([], stps @ [Step_ReactionsUnableToSolve])) \<and>
   ((\<exists>s\<in>set (supports beam). sup_type s = fixed) \<longrightarrow>
      (\<exists>fx\<in>set (supports beam). sup_type fx = fixed \<and>
         ((\<forall>s\<in>set (supports beam). is_fin (sup_position s)) \<longrightarrow>
            (\<forall>s\<in>set (supports beam). sup_type s = fixed \<longrightarrow> position_le fx s)) \<and>
         solveReactions beam stps =
           ([(sup_id fx,
              \<lparr>Fy = fst (fst (getTotalLoads (loads beam) (sup_position fx) stps)),
               Mz = Some (snd (fst (getTotalLoads (loads beam) (sup_position fx) stps)))\<rparr>)],
            stps @ [Step_LoadResultants, Step_ReactionsCantilever]))) \<and>
   (fst (solveReactions beam stps) = [] \<longleftrightarrow>
      (\<forall>s\<in>set (supports beam). sup_type s \<noteq> fixed) \<and> length (supports beam) \<noteq> 2)"
proof (intro conjI impI)
  assume "(\<forall>s\<in>set (supports beam). sup_type s \<noteq> fixed) \<and> length (supports beam) \<noteq> 2"
  then show "solveReactions beam stps = ([], stps @ [Step_ReactionsUnableToSolve])"
    by (simp add: solveReactions_unsolvable)
next
  assume "\<exists>s\<in>set (supports beam). sup_type s = fixed"
  then obtain fx where fx: "find (\<lambda>s. sup_type s = fixed) (sort_position (supports beam)) = Some fx"
    using find_sort_position_None[of "\<lambda>s. sup_type s = fixed" "supports beam"] by auto
  then have in_set: "fx \<in> set (supports beam)" and is_fixed: "sup_type fx = fixed"
    using find_SomeD[OF fx] by (simp_all add: set_sort_position)
  have least: "\<forall>s\<in>set (supports beam). sup_type s = fixed \<longrightarrow> position_le fx s"
    if "\<forall>s\<in>set (supports beam). is_fin (sup_position s)"
    using find_sorted_least[OF sorted_sort_position[OF that] fx] by (simp add: set_sort_position)
  show "\<exists>fx\<in>set (supports beam). sup_type fx = fixed \<and>
         ((\<forall>s\<in>set (supports beam). is_fin (sup_position s)) \<longrightarrow>
            (\<forall>s\<in>set (supports beam). sup_type s = fixed \<longrightarrow> position_le fx s)) \<and>
         solveReactions beam stps =
           ([(sup_id fx,
              \<lparr>Fy = fst (fst (getTotalLoads (loads beam) (sup_position fx) stps)),
               Mz = Some (snd (fst (getTotalLoads (loads beam) (sup_position fx) stps)))\<rparr>)],
            stps @ [Step_LoadResultants, Step_ReactionsCantilever])"
    using in_set is_fixed least solveReactions_fixed[OF fx] by blast
next
  show "fst (solveReactions beam stps) = [] \<longleftrightarrow>
      (\<forall>s\<in>set (supports beam). sup_type s \<noteq> fixed) \<and> length (supports beam) \<noteq> 2"
  proof (cases "find (\<lambda>s. sup_type s = fixed) (sort_position (supports beam))")
    case (Some fx)
    then have "\<exists>s\<in>set (supports beam). sup_type s = fixed"
      using find_SomeD[OF Some] by (auto simp: set_sort_position)
    then show ?thesis using solveReactions_fixed[OF Some, of stps] by auto
  next
    case None
    then have nf: "\<forall>s\<in>set (supports beam). sup_type s \<noteq> fixed"
      by (simp add: find_sort_position_None)
    show ?thesis
    proof (cases "length (supports beam) = 2")
      case True
      then have "length (sort_position (supports beam)) = 2" by (simp add: length_sort_position)
      then obtain s1 s2 where "sort_position (supports beam) = [s1, s2]"
        by (auto simp: length_Suc_conv numeral_2_eq_2)
      then show ?thesis using True solveReactions_two[OF nf, of s1 s2 stps]
        by (simp add: Let_def obj_set_not_Nil)
    next
      case False
      then show ?thesis using nf solveReactions_unsolvable[OF nf False, of stps] by simp
    qed
  qed
qed

text \<open>
  The theorem at a beam on three simple supports, and at a beam on two simple supports
  and a fixed one.
\<close>

theorem solveReactions_classification_witness:
  "solveReactions three_pin_beam [] = ([], [Step_ReactionsUnableToSolve]) \<and>
   solveReactions propped_beam [] =
     ([(''F'', \<lparr>Fy = Fin 10, Mz = Some (Fin 20)\<rparr>)], [Step_LoadResultants, Step_ReactionsCantilever])"
proof -
  have a: "solveReactions three_pin_beam [] = ([], [Step_ReactionsUnableToSolve])"
    using solveReactions_classification[of three_pin_beam "[]"]
    by (simp add: three_pin_beam_def)
  have b: "solveReactions propped_beam [] =
     ([(''F'', \<lparr>Fy = Fin 10, Mz = Some (Fin 20)\<rparr>)], [Step_LoadResultants, Step_ReactionsCantilever])"
    using solveReactions_classification[of propped_beam "[]"]
    by (auto simp: propped_beam_def getTotalLoads_def total_load_step_def)
  show ?thesis using a b by simp
qed

text \<open>
  Claim C1 as stated fails on two non-fixed supports plus a fixed one: the reaction set
  is not empty, and the step recorded is the cantilever solution.
\<close>

theorem fixed_with_two_supports_counterexample:
  "solveReactions propped_beam [] =
     ([(''F'', \<lparr>Fy = Fin 10, Mz = Some (Fin 20)\<rparr>)], [Step_LoadResultants, Step_ReactionsCantilever])"
  by (simp add: propped_beam_def solveReactions_def sort_position_def getTotalLoads_def total_load_step_def)

lemma sort_position_two:
  "sort_position [s1, s2] =
     (if Fin 0 < sup_position s1 - sup_position s2 then [s2, s1] else [s1, s2])"
  by (simp add: sort_position_def)

text \<open>
  Claim C2, amended. Let every load have finite numbers, every distributed load carry its
  end position, no varying load have an inverted span, and every support have a finite
  position. If some support is fixed, or the supports are exactly two, neither fixed, at
  two different positions and under two different identifiers, then the sum of the
  vertical forces of the reactions equals the sum of the vertical resultants of the
  loads: their signed total is zero.
\<close>

theorem reactions_balance_loads:
  assumes lds: "\<forall>l\<in>set (loads beam). load_finite l \<and> span_given l"
    and sups: "\<forall>s\<in>set (supports beam). is_fin (sup_position s)"
    and solvable: "(\<exists>s\<in>set (supports beam). sup_type s = fixed) \<or>
         (\<exists>s1 s2. supports beam = [s1, s2] \<and> sup_type s1 \<noteq> fixed \<and> sup_type s2 \<noteq> fixed \<and>
                  sup_position s1 \<noteq> sup_position s2 \<and> sup_id s1 \<noteq> sup_id s2)"
  shows "sum_Fy (fst (solveReactions beam stps)) = Fin (\<Sum>l\<leftarrow>loads beam. load_resultant l) \<and>
         sum_Fy (fst (solveReactions beam stps)) - Fin (\<Sum>l\<leftarrow>loads beam. load_resultant l) = Fin 0"
proof -
  have "sum_Fy (fst (solveReactions beam stps)) = Fin (\<Sum>l\<leftarrow>loads beam. load_resultant l)"
  proof (cases "\<exists>s\<in>set (supports beam). sup_type s = fixed")
    case True
    then obtain fx where fx: "find (\<lambda>s. sup_type s = fixed) (sort_position (supports beam)) = Some fx"
      using find_sort_position_None[of "\<lambda>s. sup_type s = fixed" "supports beam"] by auto
    then have "fx \<in> set (supports beam)" using find_SomeD[OF fx] by (simp add: set_sort_position)
    then obtain p where p: "sup_position fx = Fin p" using sups by (auto simp: is_fin_conv)
    show ?thesis
      by (simp add: solveReactions_fixed[OF fx] p getTotalLoads_fin[OF lds] sum_Fy_def)
  next
    case False
    then have nf: "\<forall>s\<in>set (supports beam). sup_type s \<noteq> fixed" by simp
    from False solvable obtain s1 s2 where s: "supports beam = [s1, s2]"
      "sup_position s1 \<noteq> sup_position s2" "sup_id s1 \<noteq> sup_id s2" by auto
    obtain p1 p2 where p: "sup_position s1 = Fin p1" "sup_position s2 = Fin p2"
      using sups s(1) by (auto simp: is_fin_conv)
    have ne: "p1 \<noteq> p2" using s(2) p by simp
    show ?thesis
    proof (cases "p2 < p1")
      case True
      then have srt: "sort_position (supports beam) = [s2, s1]"
        using s(1) p by (simp add: sort_position_two)
      show ?thesis using True s(3)
        by (simp add: solveReactions_two[OF nf srt] p getTotalLoads_fin[OF lds] sum_Fy_def Let_def)
    next
      case False
      then have srt: "sort_position (supports beam) = [s1, s2]"
        using s(1) p by (simp add: sort_position_two)
      show ?thesis using False ne s(3)
        by (simp add: solveReactions_two[OF nf srt] p getTotalLoads_fin[OF lds] sum_Fy_def Let_def)
    qed
  qed
  then show ?thesis by simp
qed

text \<open>
  The theorem at a beam on two simple supports under a point load of 10, a uniform load
  of resultant 6 and a varying load of resultant 12.
\<close>

theorem reactions_balance_loads_witness:
  "sum_Fy (fst (solveReactions mixed_beam [])) = Fin 28"
proof -
  have h1: "\<forall>l\<in>set (loads mixed_beam). load_finite l \<and> span_given l"
    by (simp add: mixed_beam_def load_finite_def span_given_def span_length_def)
  have h2: "\<forall>s\<in>set (supports mixed_beam). is_fin (sup_position s)"
    by (simp add: mixed_beam_def)
  have h3: "(\<exists>s\<in>set (supports mixed_beam). sup_type s = fixed) \<or>
         (\<exists>s1 s2. supports mixed_beam = [s1, s2] \<and> sup_type s1 \<noteq> fixed \<and> sup_type s2 \<noteq> fixed \<and>
                  sup_position s1 \<noteq> sup_position s2 \<and> sup_id s1 \<noteq> sup_id s2)"
    by (simp add: mixed_beam_def)
  have "(\<Sum>l\<leftarrow>loads mixed_beam. load_resultant l) = 28"
    by (simp add: mixed_beam_def load_resultant_def span_length_def)
  then show ?thesis using reactions_balance_loads[OF h1 h2 h3, of "[]"] by simp
qed

text \<open>
  Claim C2 as stated fails on two non-fixed supports at the same position: the span is
  zero, the division yields an infinite reaction at one support and the opposite one at
  the other, and their sum is no number, while the load resultant is 10.
\<close>

theorem coincident_supports_counterexample:
  "sum_Fy (fst (solveReactions coincident_beam [])) = NaN \<and>
   (\<Sum>l\<leftarrow>loads coincident_beam. load_resultant l) = 10"
  by (simp add: coincident_beam_def solveReactions_def sort_position_def getTotalLoads_def
      total_load_step_def sum_Fy_def load_resultant_def inf_of_sign_def minus_number_def)

lemma running_max_snoc: "running_max m (vs @ [v]) = (if running_max m vs < \<bar>v\<bar> then \<bar>v\<bar> else running_max m vs)"
  by (simp add: running_max_def)

lemma sfbm_step_eq:
  "sfbm_step L dx al i (sf, bm, a, b) =
     (sf @ [(station dx i, fst (section_forces L al (station dx i)))],
      bm @ [(station dx i, snd (section_forces L al (station dx i)))],
      (if a < \<bar>fst (section_forces L al (station dx i))\<bar>
       then \<bar>fst (section_forces L al (station dx i))\<bar> else a),
      (if b < \<bar>snd (section_forces L al (station dx i))\<bar>
       then \<bar>snd (section_forces L al (station dx i))\<bar> else b))"
  by (simp add: sfbm_step_def Let_def split: prod.splits)

lemma sfbm_fold:
  "fold (sfbm_step L dx al) [0..<n] (sf, bm, a, b) =
     (sf @ map (\<lambda>i. (station dx i, fst (section_forces L al (station dx i)))) [0..<n],
      bm @ map (\<lambda>i. (station dx i, snd (section_forces L al (station dx i)))) [0..<n],
      running_max a (map (\<lambda>i. fst (section_forces L al (station dx i))) [0..<n]),
      running_max b (map (\<lambda>i. snd (section_forces L al (station dx i))) [0..<n]))"
proof (induction n)
  case 0
  show ?case by (simp add: running_max_def)
next
  case (Suc n)
  show ?case
    by (simp add: Suc sfbm_step_eq running_max_snoc)
qed

lemma sfbm_loop_eq:
  "sfbm_loop L dx al =
     (map (\<lambda>i. (station dx i, fst (section_forces L al (station dx i)))) [0..<Suc points],
      map (\<lambda>i. (station dx i, snd (section_forces L al (station dx i)))) [0..<Suc points],
      running_max (Fin 0) (map (\<lambda>i. fst (section_forces L al (station dx i))) [0..<Suc points]),
      running_max (Fin 0) (map (\<lambda>i. snd (section_forces L al (station dx i))) [0..<Suc points]))"
  unfolding sfbm_loop_def sfbm_fold by simp

lemma solveBeam_reactions: "reactions (solveBeam beam) = beam_reactions beam"
  by (simp add: solveBeam_def beam_reactions_def Let_def split_beta)

lemma solveBeam_shearForce:
  "shearForce (solveBeam beam) = map (\<lambda>i. (station (beam_dx beam) i, shear_at beam i)) [0..<Suc points]"
  by (simp add: solveBeam_def beam_reactions_def beam_dx_def shear_at_def[abs_def] Let_def
        split_beta sfbm_loop_eq del: upt_Suc)

lemma solveBeam_bendingMoment:
  "bendingMoment (solveBeam beam) = map (\<lambda>i. (station (beam_dx beam) i, moment_at beam i)) [0..<Suc points]"
  by (simp add: solveBeam_def beam_reactions_def beam_dx_def moment_at_def[abs_def] Let_def
        split_beta sfbm_loop_eq del: upt_Suc)

lemma solveBeam_maxBendingMoment:
  "maxBendingMoment (solveBeam beam) = running_max (Fin 0) (map (moment_at beam) [0..<Suc points])"
  by (simp add: solveBeam_def beam_reactions_def beam_dx_def moment_at_def[abs_def] Let_def
        split_beta sfbm_loop_eq del: upt_Suc)

lemma solveBeam_maxShearForce:
  "maxShearForce (solveBeam beam) = running_max (Fin 0) (map (shear_at beam) [0..<Suc points])"
  by (simp add: solveBeam_def beam_reactions_def beam_dx_def shear_at_def[abs_def] Let_def
        split_beta sfbm_loop_eq del: upt_Suc)

lemma Math_min_Fin [simp]: "Math_min (Fin a) (Fin b) = Fin (min a b)"
  by (simp add: min_def)

text \<open>
  Claim C3 at a failing input. The guard of the centroid formula is \<open>denom > 1e-12\<close>, so
  the upward load, whose denominator is \<open>-6\<close>, gets the midpoint \<open>3 / 2\<close> of its span and
  not its centroid \<open>5 / 3\<close>: the moment about 0 is \<open>-27 / 2\<close> where the downward load of
  the same shape gives 15, and at the section \<open>x = 3\<close> the moment is \<open>27 / 2\<close> where the
  downward load gives \<open>-12\<close>.
\<close>

theorem uvl_negative_denominator_midpoint:
  "fst (getTotalLoads [uvl_up] (Fin 0) []) = (Fin (- 9), Fin (- (27 / 2))) \<and>
   fst (getTotalLoads [uvl_down] (Fin 0) []) = (Fin 9, Fin 15) \<and>
   load_effect (Fin 10) (Fin 3) uvl_up (Fin 0, Fin 0) = (Fin 9, Fin (27 / 2)) \<and>
   load_effect (Fin 10) (Fin 3) uvl_down (Fin 0, Fin 0) = (Fin (- 9), Fin (- 12))"
  by (simp add: getTotalLoads_def total_load_step_def load_effect_def uvl_up_def uvl_down_def
      eps12_def Let_def)

text \<open>
  The degenerate varying load, both intensities zero, adds nothing to the resultants nor
  to the shear force and bending moment, and the result is a finite number: no division
  by zero takes place.
\<close>

lemma uvl_degenerate_total:
  assumes "load_type l = uvl" "magnitude l = Fin 0" "or_else (endMagnitude l) (Fin 0) = Fin 0"
    "position l = Fin a" "or_else (endPosition l) (position l) = Fin e"
  shows "total_load_step (Fin p) l (Fin F, Fin M) = (Fin F, Fin M)"
  using assms by (simp add: total_load_step_def Let_def eps12_def)

lemma uvl_degenerate_effect:
  assumes "load_type l = uvl" "magnitude l = Fin 0" "or_else (endMagnitude l) (Fin 0) = Fin 0"
    "position l = Fin a" "or_else (endPosition l) (Fin L) = Fin e"
  shows "load_effect (Fin L) (Fin x) l (Fin V, Fin M) = (Fin V, Fin M)"
  using assms by (simp add: load_effect_def Let_def eps12_def)

text \<open>
  Claim C10. For a uniform load without end position, \<open>getTotalLoads\<close> adds nothing to
  the force and moment resultants (the span ends where it starts), while the section
  forces take the span to the end of the beam. On the cantilever of length 2 under such
  a load of intensity 1 the reactions are zero, and the shear force and bending moment
  at the last station are both \<open>-2\<close>: the reactions do not balance the loads that the
  diagrams are sampled from.
\<close>

theorem udl_open_end_defaults_disagree:
  "total_load_step (Fin p)
     \<lparr>load_id = k, load_type = udl, position = Fin a, magnitude = Fin w,
      endMagnitude = em, endPosition = None\<rparr> (Fin F, Fin M) = (Fin F, Fin M) \<and>
   load_effect (Fin L) (Fin x)
     \<lparr>load_id = k, load_type = udl, position = Fin a, magnitude = Fin w,
      endMagnitude = em, endPosition = None\<rparr> (Fin V, Fin M) =
     (if a \<le> x
      then (Fin (V - w * (min x L - a)),
            Fin (M - w * (min x L - a) * (x - (a + (min x L - a) / 2))))
      else (Fin V, Fin M)) \<and>
   reactions (solveBeam open_udl_beam) = [(''A'', \<lparr>Fy = Fin 0, Mz = Some (Fin 0)\<rparr>)] \<and>
   shearForce (solveBeam open_udl_beam) ! 500 = (Fin 2, Fin (- 2)) \<and>
   bendingMoment (solveBeam open_udl_beam) ! 500 = (Fin 2, Fin (- 2))"
proof -
  have r: "beam_reactions open_udl_beam = [(''A'', \<lparr>Fy = Fin 0, Mz = Some (Fin 0)\<rparr>)]"
    by (simp add: beam_reactions_def open_udl_beam_def solveReactions_def sort_position_def
        getTotalLoads_def total_load_step_def Let_def)
  have e: "effective_loads open_udl_beam (beam_reactions open_udl_beam) = loads open_udl_beam"
    unfolding r by (simp add: effective_loads_def reaction_loads_def open_udl_beam_def eps10_def Let_def)
  have x: "station (beam_dx open_udl_beam) 500 = Fin 2"
    by (simp add: station_def beam_dx_def open_udl_beam_def points_def)
  have i: "(500::nat) < Suc points - 0" by (simp add: points_def)
  have s: "section_forces (beam_length open_udl_beam) (loads open_udl_beam) (Fin 2) = (Fin (- 2), Fin (- 2))"
    by (simp add: section_forces_def load_effect_def open_udl_beam_def Let_def)
  have sf: "shearForce (solveBeam open_udl_beam) ! 500 = (Fin 2, Fin (- 2))"
    unfolding solveBeam_shearForce nth_map_upt[OF i] by (simp add: shear_at_def e x s)
  have bm: "bendingMoment (solveBeam open_udl_beam) ! 500 = (Fin 2, Fin (- 2))"
    unfolding solveBeam_bendingMoment nth_map_upt[OF i] by (simp add: moment_at_def e x s)
  have g1: "total_load_step (Fin p)
     \<lparr>load_id = k, load_type = udl, position = Fin a, magnitude = Fin w,
      endMagnitude = em, endPosition = None\<rparr> (Fin F, Fin M) = (Fin F, Fin M)"
    by (simp add: total_load_step_def Let_def)
  have g2: "load_effect (Fin L) (Fin x)
     \<lparr>load_id = k, load_type = udl, position = Fin a, magnitude = Fin w,
      endMagnitude = em, endPosition = None\<rparr> (Fin V, Fin M) =
     (if a \<le> x
      then (Fin (V - w * (min x L - a)),
            Fin (M - w * (min x L - a) * (x - (a + (min x L - a) / 2))))
      else (Fin V, Fin M))" for x
    by (simp add: load_effect_def Let_def)
  show ?thesis using g1 g2 sf bm by (simp add: solveBeam_reactions r)
qed

section \<open>Properties of the solver\<close>

lemma twist_step_eq:
  "twist_step tls Tr GJ dx i (phi, aot, m) =
     (let phi' = (if 0 < i then phi + (internal_torque tls Tr (station dx i) / GJ) * dx else phi)
      in (phi', aot @ [(station dx i, phi')], (if m < \<bar>phi'\<bar> then \<bar>phi'\<bar> else m)))"
  by (simp add: twist_step_def Let_def)

lemma twist_fold:
  "fold (twist_step tls Tr GJ dx) [0..<Suc n] (Fin 0, [], Fin 0) =
     (twist_phi (\<lambda>i. internal_torque tls Tr (station dx i)) GJ dx n,
      map (\<lambda>i. (station dx i, twist_phi (\<lambda>i. internal_torque tls Tr (station dx i)) GJ dx i)) [0..<Suc n],
      running_max (Fin 0) (map (twist_phi (\<lambda>i. internal_torque tls Tr (station dx i)) GJ dx) [0..<Suc n]))"
proof (induction n)
  case 0
  show ?case by (simp add: twist_step_eq running_max_def Let_def)
next
  case (Suc n)
  have "fold (twist_step tls Tr GJ dx) [0..<Suc (Suc n)] (Fin 0, [], Fin 0) =
        twist_step tls Tr GJ dx (Suc n) (fold (twist_step tls Tr GJ dx) [0..<Suc n] (Fin 0, [], Fin 0))"
    by simp
  also have "\<dots> = (twist_phi (\<lambda>i. internal_torque tls Tr (station dx i)) GJ dx (Suc n),
      map (\<lambda>i. (station dx i, twist_phi (\<lambda>i. internal_torque tls Tr (station dx i)) GJ dx i)) [0..<Suc (Suc n)],
      running_max (Fin 0) (map (twist_phi (\<lambda>i. internal_torque tls Tr (station dx i)) GJ dx) [0..<Suc (Suc n)]))"
    unfolding Suc twist_step_eq by (simp add: Let_def running_max_def)
  finally show ?case .
qed

lemma fold_magnitude_fin:
  assumes "\<forall>l\<in>set tls. is_fin (magnitude l)"
  shows "fold (\<lambda>l acc. acc + magnitude l) tls (Fin t) = Fin (t + (\<Sum>l\<leftarrow>tls. the_fin (magnitude l)))"
  using assms
proof (induction tls arbitrary: t)
  case Nil
  then show ?case by simp
next
  case (Cons l tls)
  then obtain m where "magnitude l = Fin m" by (auto simp: is_fin_conv)
  then show ?case using Cons by (simp add: add.assoc)
qed

lemma internal_torque_fin:
  assumes "\<forall>l\<in>set tls. is_fin (position l) \<and> is_fin (magnitude l)"
  shows "internal_torque tls (Fin t) (Fin x) =
           Fin (t + (\<Sum>l\<leftarrow>filter (\<lambda>l. the_fin (position l) \<le> x) tls. the_fin (magnitude l)))"
  using assms unfolding internal_torque_def
proof (induction tls arbitrary: t)
  case Nil
  then show ?case by simp
next
  case (Cons l tls)
  then obtain m p where "magnitude l = Fin m" "position l = Fin p" by (auto simp: is_fin_conv)
  then show ?case using Cons by (simp add: add.assoc)
qed

lemma find_Some_iff_ex: "(\<exists>x. find P xs = Some x) \<longleftrightarrow> (\<exists>x\<in>set xs. P x)"
  by (induction xs) auto

lemma reaction_torque_fin:
  assumes "\<forall>l\<in>set (torque_loads beam). is_fin (magnitude l)"
  shows "reaction_torque (supports beam) (torque_loads beam) = Fin (torque_reaction beam)"
proof (cases "find (\<lambda>s. sup_type s = fixed \<and> sup_position s = Fin 0) (supports beam)")
  case None
  then have "\<not> (\<exists>s\<in>set (supports beam). sup_type s = fixed \<and> sup_position s = Fin 0)"
    using find_Some_iff_ex[of "\<lambda>s. sup_type s = fixed \<and> sup_position s = Fin 0" "supports beam"] by simp
  then show ?thesis using None by (auto simp: reaction_torque_def torque_reaction_def)
next
  case (Some s)
  then have "\<exists>s\<in>set (supports beam). sup_type s = fixed \<and> sup_position s = Fin 0"
    using find_Some_iff_ex[of "\<lambda>s. sup_type s = fixed \<and> sup_position s = Fin 0" "supports beam"] by auto
  then show ?thesis using Some fold_magnitude_fin[OF assms, of 0]
    by (simp add: reaction_torque_def torque_reaction_def)
qed

lemma solveBeam_torsion:
  "(hasTorsion (solveBeam beam), angleOfTwist (solveBeam beam), maxAngleOfTwist (solveBeam beam)) =
     torsion beam (beam_dx beam)"
  by (simp add: solveBeam_def beam_dx_def Let_def split_beta)

lemma torsion_none:
  assumes "torque_loads beam = []"
  shows "torsion beam dx = (False, map (\<lambda>i. (station dx i, Fin 0)) [0..<Suc points], Fin 0)"
  using assms by (simp add: torsion_def torque_loads_def Let_def del: upt_Suc)

lemma torsion_some:
  assumes "torque_loads beam \<noteq> []"
  shows "torsion beam dx =
    (True,
     map (\<lambda>i. (station dx i,
                twist_phi (\<lambda>i. internal_torque (torque_loads beam)
                                  (reaction_torque (supports beam) (torque_loads beam)) (station dx i))
                  (beam_G beam * beam_J beam) dx i)) [0..<Suc points],
     running_max (Fin 0)
       (map (twist_phi (\<lambda>i. internal_torque (torque_loads beam)
                                  (reaction_torque (supports beam) (torque_loads beam)) (station dx i))
                  (beam_G beam * beam_J beam) dx) [0..<Suc points]))"
  using assms unfolding torsion_def torque_loads_def[symmetric] Let_def twist_fold
  by (simp del: upt_Suc)

lemma beam_dx_fin: "beam_length beam = Fin L \<Longrightarrow> beam_dx beam = Fin (L / 500)"
  by (simp add: beam_dx_def points_def)

lemma station_fin: "station (Fin d) i = Fin (real i * d)"
  by (simp add: station_def)

text \<open>
  Claim C6. Let the beam length and the positions and magnitudes of the torque loads be
  finite. Without torque loads the torsion flag is false and the angle of twist is zero
  at each of the 501 stations. With torque loads the flag is true, the angle of twist is
  0 at station 0 and at station \<open>i + 1\<close> it is the angle at station \<open>i\<close> plus
  \<open>(T / (G * J)) * dx\<close>, where \<open>T\<close> is the internal torque at station \<open>i + 1\<close>: the reaction
  torque plus the magnitudes of the torque loads at positions up to the station, the
  reaction torque being minus the sum of all torque magnitudes if a fixed support sits
  exactly at position 0, and zero otherwise.
\<close>

theorem twist_series:
  assumes len: "is_fin (beam_length beam)"
    and tq: "\<forall>l\<in>set (torque_loads beam). is_fin (position l) \<and> is_fin (magnitude l)"
  shows "(torque_loads beam = [] \<longrightarrow>
            \<not> hasTorsion (solveBeam beam) \<and>
            angleOfTwist (solveBeam beam) =
              map (\<lambda>i. (station (beam_dx beam) i, Fin 0)) [0..<501]) \<and>
         (torque_loads beam \<noteq> [] \<longrightarrow>
            hasTorsion (solveBeam beam) \<and>
            length (angleOfTwist (solveBeam beam)) = 501 \<and>
            (\<forall>i<501. fst (angleOfTwist (solveBeam beam) ! i) = station (beam_dx beam) i) \<and>
            snd (angleOfTwist (solveBeam beam) ! 0) = Fin 0 \<and>
            (\<forall>i<500. snd (angleOfTwist (solveBeam beam) ! Suc i) =
                 snd (angleOfTwist (solveBeam beam) ! i) +
                 (Fin (torque_at beam (the_fin (station (beam_dx beam) (Suc i)))) /
                    (beam_G beam * beam_J beam)) * beam_dx beam))"
proof (intro conjI impI)
  assume e: "torque_loads beam = []"
  have "torsion beam (beam_dx beam) =
          (False, map (\<lambda>i. (station (beam_dx beam) i, Fin 0)) [0..<Suc points], Fin 0)"
    by (rule torsion_none[OF e])
  then have "hasTorsion (solveBeam beam) = False"
    and "angleOfTwist (solveBeam beam) = map (\<lambda>i. (station (beam_dx beam) i, Fin 0)) [0..<Suc points]"
    unfolding solveBeam_torsion[symmetric] by simp_all
  then show "\<not> hasTorsion (solveBeam beam)"
    and "angleOfTwist (solveBeam beam) = map (\<lambda>i. (station (beam_dx beam) i, Fin 0)) [0..<501]"
    by (simp_all add: points_def)
next
  assume ne: "torque_loads beam \<noteq> []"
  define T where "T i = internal_torque (torque_loads beam)
      (reaction_torque (supports beam) (torque_loads beam)) (station (beam_dx beam) i)" for i
  define phi where "phi = twist_phi T (beam_G beam * beam_J beam) (beam_dx beam)"
  have "torsion beam (beam_dx beam) =
          (True, map (\<lambda>i. (station (beam_dx beam) i, phi i)) [0..<Suc points],
           running_max (Fin 0) (map phi [0..<Suc points]))"
    unfolding phi_def T_def by (rule torsion_some[OF ne])
  then have ht: "hasTorsion (solveBeam beam) = True"
    and aot: "angleOfTwist (solveBeam beam) = map (\<lambda>i. (station (beam_dx beam) i, phi i)) [0..<501]"
    unfolding solveBeam_torsion[symmetric] by (simp_all add: points_def)
  obtain L where L: "beam_length beam = Fin L" using len by (auto simp: is_fin_conv)
  have Tfin: "T i = Fin (torque_at beam (the_fin (station (beam_dx beam) i)))" for i
    unfolding T_def reaction_torque_fin[of beam, simplified, OF conjunct2[OF tq[unfolded ball_conj_distrib]]]
    by (simp add: beam_dx_fin[OF L] station_fin internal_torque_fin[OF tq] torque_at_def)
  show "hasTorsion (solveBeam beam)" using ht by simp
  show "length (angleOfTwist (solveBeam beam)) = 501" by (simp add: aot)
  show "\<forall>i<501. fst (angleOfTwist (solveBeam beam) ! i) = station (beam_dx beam) i"
    by (simp add: aot nth_map_upt del: upt_Suc)
  show "snd (angleOfTwist (solveBeam beam) ! 0) = Fin 0"
    unfolding aot by (simp add: nth_map_upt phi_def del: upt_Suc)
  show "\<forall>i<500. snd (angleOfTwist (solveBeam beam) ! Suc i) =
          snd (angleOfTwist (solveBeam beam) ! i) +
          (Fin (torque_at beam (the_fin (station (beam_dx beam) (Suc i)))) /
             (beam_G beam * beam_J beam)) * beam_dx beam"
  proof (intro allI impI)
    fix i :: nat assume i: "i < 500"
    have "snd (angleOfTwist (solveBeam beam) ! Suc i) = phi (Suc i)"
      and "snd (angleOfTwist (solveBeam beam) ! i) = phi i"
      using i unfolding aot by (simp_all add: nth_map_upt del: upt_Suc)
    then show "snd (angleOfTwist (solveBeam beam) ! Suc i) =
          snd (angleOfTwist (solveBeam beam) ! i) +
          (Fin (torque_at beam (the_fin (station (beam_dx beam) (Suc i)))) /
             (beam_G beam * beam_J beam)) * beam_dx beam"
      by (simp add: phi_def Tfin)
  qed
qed

text \<open>
  The theorem at the cantilever under two torques: the internal torque at station 1 is
  \<open>-1600\<close>, and \<open>G * J\<close> is \<open>8000000\<close>.
\<close>

theorem twist_series_witness:
  "hasTorsion (solveBeam torque_beam) \<and>
   snd (angleOfTwist (solveBeam torque_beam) ! 0) = Fin 0 \<and>
   snd (angleOfTwist (solveBeam torque_beam) ! 1) = Fin (- (1 / 250000))"
proof -
  have tl: "torque_loads torque_beam = loads torque_beam"
    by (simp add: torque_loads_def torque_beam_def)
  have h1: "is_fin (beam_length torque_beam)" by (simp add: torque_beam_def)
  have h2: "\<forall>l\<in>set (torque_loads torque_beam). is_fin (position l) \<and> is_fin (magnitude l)"
    unfolding tl by (simp add: torque_beam_def)
  have ne: "torque_loads torque_beam \<noteq> []" unfolding tl by (simp add: torque_beam_def)
  have dx: "beam_dx torque_beam = Fin (1 / 50)"
    by (simp add: beam_dx_def torque_beam_def points_def)
  have t: "torque_at torque_beam (1 / 50) = - 1600"
    unfolding torque_at_def torque_reaction_def tl by (simp add: torque_beam_def)
  have gj: "beam_G torque_beam * beam_J torque_beam = Fin 8000000"
    by (simp add: torque_beam_def)
  from twist_series[OF h1 h2] ne have
    a: "hasTorsion (solveBeam torque_beam)" and
    b: "snd (angleOfTwist (solveBeam torque_beam) ! 0) = Fin 0" and
    c: "\<forall>i<500. snd (angleOfTwist (solveBeam torque_beam) ! Suc i) =
                 snd (angleOfTwist (solveBeam torque_beam) ! i) +
                 (Fin (torque_at torque_beam (the_fin (station (beam_dx torque_beam) (Suc i)))) /
                    (beam_G torque_beam * beam_J torque_beam)) * beam_dx torque_beam"
    by simp_all
  from c have "snd (angleOfTwist (solveBeam torque_beam) ! Suc 0) =
                 snd (angleOfTwist (solveBeam torque_beam) ! 0) +
                 (Fin (torque_at torque_beam (the_fin (station (beam_dx torque_beam) (Suc 0)))) /
                    (beam_G torque_beam * beam_J torque_beam)) * beam_dx torque_beam"
    by simp
  then have "snd (angleOfTwist (solveBeam torque_beam) ! 1) = Fin (- (1 / 250000))"
    unfolding b dx gj by (simp add: station_fin t)
  then show ?thesis using a b by simp
qed

lemma deflection_step_eq:
  "deflection_step dx EI S D C1 C2 i (slp, dfl, m) =
     (slp @ [(station dx i, (S ! i + C1) / EI)],
      dfl @ [(station dx i, (D ! i + C1 * station dx i + C2) / EI)],
      (if m < \<bar>(D ! i + C1 * station dx i + C2) / EI\<bar>
       then \<bar>(D ! i + C1 * station dx i + C2) / EI\<bar> else m))"
  by (simp add: deflection_step_def Let_def)

lemma deflection_fold:
  "fold (deflection_step dx EI S D C1 C2) [0..<n] (slp, dfl, m) =
     (slp @ map (\<lambda>i. (station dx i, (S ! i + C1) / EI)) [0..<n],
      dfl @ map (\<lambda>i. (station dx i, (D ! i + C1 * station dx i + C2) / EI)) [0..<n],
      running_max m (map (\<lambda>i. (D ! i + C1 * station dx i + C2) / EI) [0..<n]))"
proof (induction n)
  case 0
  show ?case by (simp add: running_max_def)
next
  case (Suc n)
  show ?case by (simp add: Suc deflection_step_eq running_max_snoc)
qed

lemma deflection_loop_eq:
  "deflection_loop dx EI S D C1 C2 =
     (map (\<lambda>i. (station dx i, (S ! i + C1) / EI)) [0..<Suc points],
      map (\<lambda>i. (station dx i, (D ! i + C1 * station dx i + C2) / EI)) [0..<Suc points],
      running_max (Fin 0) (map (\<lambda>i. (D ! i + C1 * station dx i + C2) / EI) [0..<Suc points]))"
  unfolding deflection_loop_def deflection_fold by simp

lemma length_fold_snoc:
  "length (fold (\<lambda>i acc. acc @ [f i acc]) [0..<n] acc0) = length acc0 + n"
  by (induction n) simp_all

lemma length_running_integral: "length (running_integral dx vals) = Suc points"
  unfolding running_integral_def length_fold_snoc by simp

lemma solveBeam_slope_deflection:
  "(slope (solveBeam beam), deflection (solveBeam beam), maxDeflection (solveBeam beam)) =
     slope_deflection beam (beam_dx beam) (bendingMoment (solveBeam beam))"
  by (simp add: solveBeam_def beam_dx_def Let_def split_beta)

lemma find_fixed_None:
  "find (\<lambda>s. sup_type s = fixed) sups = None \<longleftrightarrow> (\<forall>s\<in>set sups. sup_type s \<noteq> fixed)"
  by (auto simp: find_None_iff)

lemma slope_deflection_two:
  assumes "\<forall>s\<in>set (supports beam). sup_type s \<noteq> fixed"
    and "sort_position (supports beam) = sA # sB # others"
    and "bm = bendingMoment (solveBeam beam)"
  shows "slope_deflection beam (beam_dx beam) bm =
     (let D = D_partial_of beam; S = slopeEI_of beam;
          C1 = - (arr_get D (station_index beam (sup_position sB)) -
                  arr_get D (station_index beam (sup_position sA))) /
                 (sup_position sB - sup_position sA);
          C2 = - arr_get D (station_index beam (sup_position sA)) - C1 * sup_position sA
      in deflection_loop (beam_dx beam) (beam_E beam * beam_I beam) S D C1 C2)"
  using assms(1)[folded find_fixed_None] assms(2,3)
  by (simp add: slope_deflection_def Let_def D_partial_of_def slopeEI_of_def station_index_def)

lemma slope_deflection_few:
  assumes "\<forall>s\<in>set (supports beam). sup_type s \<noteq> fixed"
    and "length (supports beam) < 2"
  shows "slope_deflection beam (beam_dx beam) bm = (zero_series beam, zero_series beam, Fin 0)"
proof -
  have "length (sort_position (supports beam)) < 2"
    using assms(2) by (simp add: length_sort_position)
  then have "sort_position (supports beam) = [] \<or> (\<exists>s. sort_position (supports beam) = [s])"
    by (cases "sort_position (supports beam)") (auto simp: less_Suc_eq numeral_2_eq_2)
  then show ?thesis using assms(1)[folded find_fixed_None]
    by (auto simp: slope_deflection_def Let_def zero_series_def simp del: upt_Suc)
qed

lemma sorted_head_two:
  assumes "\<forall>s\<in>set xs. is_fin (sup_position s)" "sort_position xs = sA # sB # others"
  shows "position_le sA sB \<and> (\<forall>s\<in>set others. position_le sB s)"
  using sorted_sort_position[OF assms(1)] unfolding assms(2) by simp

lemma nearest_integer:
  fixes t :: real
  shows "\<bar>of_int \<lfloor>t + 1 / 2\<rfloor> - t\<bar> \<le> \<bar>of_int k - t\<bar>"
proof -
  define n where "n = \<lfloor>t + 1 / 2\<rfloor>"
  have 1: "of_int n \<le> t + 1 / 2" "t + 1 / 2 < of_int n + 1"
    unfolding n_def by linarith+
  then have half: "\<bar>of_int n - t\<bar> \<le> 1 / 2" by linarith
  show ?thesis
  proof (cases "k = n")
    case True then show ?thesis by (simp add: n_def)
  next
    case False
    then have "k \<le> n - 1 \<or> n + 1 \<le> k" by linarith
    then have "(of_int k :: real) \<le> of_int n - 1 \<or> (of_int n :: real) + 1 \<le> of_int k"
      by (metis of_int_le_iff of_int_diff of_int_add of_int_1)
    then have "1 / 2 \<le> \<bar>of_int k - t\<bar>" using 1 by linarith
    then show ?thesis using half unfolding n_def by linarith
  qed
qed

lemma station_index_nearest:
  assumes L: "beam_length beam = Fin L" "0 < L" and p: "0 \<le> p" "p \<le> L"
  shows "\<exists>a\<le>500. station_index beam (Fin p) = Fin (real a) \<and>
           (\<forall>k::nat. \<bar>real a * (L / 500) - p\<bar> \<le> \<bar>real k * (L / 500) - p\<bar>)"
proof -
  define t where "t = p / L * 500"
  define n where "n = \<lfloor>t + 1 / 2\<rfloor>"
  have t0: "0 \<le> t" using L p by (simp add: t_def)
  have "p / L \<le> 1" using L p by simp
  then have "p / L * 500 \<le> 1 * 500" by (intro mult_right_mono) simp_all
  then have t1: "t \<le> 500" unfolding t_def by simp
  have n0: "0 \<le> n" unfolding n_def using t0 by simp
  have "t + 1 / 2 < 501" using t1 by simp
  then have "n < 501" unfolding n_def by (simp add: floor_less_iff)
  then have n1: "nat n \<le> 500" using n0 by simp
  have idx: "station_index beam (Fin p) = Fin (real (nat n))"
    using L n0 by (simp add: station_index_def points_def n_def t_def)
  have pt: "p = t * (L / 500)" using L by (simp add: t_def)
  have sc: "\<bar>real j * (L / 500) - p\<bar> = \<bar>real j - t\<bar> * (L / 500)" for j :: nat
  proof -
    have "real j * (L / 500) - p = (real j - t) * (L / 500)"
      unfolding pt by (simp add: algebra_simps)
    then have "\<bar>real j * (L / 500) - p\<bar> = \<bar>(real j - t) * (L / 500)\<bar>"
      by (simp only:)
    also have "\<dots> = \<bar>real j - t\<bar> * \<bar>L / 500\<bar>" by (rule abs_mult)
    also have "\<bar>L / 500\<bar> = L / 500" using L(2) by simp
    finally show ?thesis .
  qed
  have "\<bar>real (nat n) * (L / 500) - p\<bar> \<le> \<bar>real k * (L / 500) - p\<bar>" for k :: nat
  proof -
    have "\<bar>of_int n - t\<bar> \<le> \<bar>of_int (int k) - t\<bar>"
      unfolding n_def by (rule nearest_integer)
    then have "\<bar>real (nat n) - t\<bar> \<le> \<bar>real k - t\<bar>" using n0 by simp
    then have le: "\<bar>real (nat n) - t\<bar> * (L / 500) \<le> \<bar>real k - t\<bar> * (L / 500)"
      using L(2) by (intro mult_right_mono) simp_all
    show ?thesis unfolding sc by (rule le)
  qed
  then show ?thesis using n1 idx by blast
qed

text \<open>
  Claim C7. Let no support be fixed. With at least two supports, the supports are, up to
  their order, two supports \<open>A\<close> and \<open>B\<close> followed by others, \<open>A\<close> not after \<open>B\<close> and \<open>B\<close> not
  after any other when the positions are finite; and slope and deflection at station
  \<open>i\<close> are \<open>(S i + C1) / EI\<close> and \<open>(D i + C1 * x i + C2) / EI\<close> with
  \<open>C1 = -(D b - D a) / (p\<^sub>B - p\<^sub>A)\<close> and \<open>C2 = -D a - C1 * p\<^sub>A\<close>, where \<open>a\<close> and \<open>b\<close> are the
  station indices computed for the two positions. With fewer than two supports, slope
  and deflection are zero at each of the 501 stations. The station index computed for a
  position on a beam of positive length is that of a station nearest to it, and the read
  of \<open>D\<close> at that index is in range.
\<close>

theorem deflection_boundary_conditions:
  assumes nf: "\<forall>s\<in>set (supports beam). sup_type s \<noteq> fixed"
  shows
    "(2 \<le> length (supports beam) \<longrightarrow>
        (\<exists>sA sB others.
           mset (supports beam) = mset (sA # sB # others) \<and>
           ((\<forall>s\<in>set (supports beam). is_fin (sup_position s)) \<longrightarrow>
              position_le sA sB \<and> (\<forall>s\<in>set others. position_le sB s)) \<and>
           (let D = D_partial_of beam; S = slopeEI_of beam;
                C1 = - (arr_get D (station_index beam (sup_position sB)) -
                        arr_get D (station_index beam (sup_position sA))) /
                       (sup_position sB - sup_position sA);
                C2 = - arr_get D (station_index beam (sup_position sA)) - C1 * sup_position sA;
                EI = beam_E beam * beam_I beam
            in slope (solveBeam beam) =
                 map (\<lambda>i. (station (beam_dx beam) i, (S ! i + C1) / EI)) [0..<501] \<and>
               deflection (solveBeam beam) =
                 map (\<lambda>i. (station (beam_dx beam) i,
                            (D ! i + C1 * station (beam_dx beam) i + C2) / EI)) [0..<501]))) \<and>
     (length (supports beam) < 2 \<longrightarrow>
        slope (solveBeam beam) = map (\<lambda>i. (station (beam_dx beam) i, Fin 0)) [0..<501] \<and>
        deflection (solveBeam beam) = map (\<lambda>i. (station (beam_dx beam) i, Fin 0)) [0..<501]) \<and>
     (\<forall>L p. beam_length beam = Fin L \<and> 0 < L \<and> 0 \<le> p \<and> p \<le> L \<longrightarrow>
        (\<exists>a\<le>500. station_index beam (Fin p) = Fin (real a) \<and>
           arr_get (D_partial_of beam) (station_index beam (Fin p)) = D_partial_of beam ! a \<and>
           (\<forall>k::nat. \<bar>real a * (L / 500) - p\<bar> \<le> \<bar>real k * (L / 500) - p\<bar>)))"
proof (intro conjI impI allI)
  assume two: "2 \<le> length (supports beam)"
  then have "2 \<le> length (sort_position (supports beam))" by (simp add: length_sort_position)
  then obtain sA sB others where srt: "sort_position (supports beam) = sA # sB # others"
    by (cases "sort_position (supports beam)"; cases "tl (sort_position (supports beam))") auto
  have ms: "mset (supports beam) = mset (sA # sB # others)"
    using mset_sort_position[of "supports beam"] unfolding srt by simp
  have low: "position_le sA sB \<and> (\<forall>s\<in>set others. position_le sB s)"
    if "\<forall>s\<in>set (supports beam). is_fin (sup_position s)"
    using sorted_head_two[OF that srt] .
  have sd: "(slope (solveBeam beam), deflection (solveBeam beam), maxDeflection (solveBeam beam)) =
      (let D = D_partial_of beam; S = slopeEI_of beam;
          C1 = - (arr_get D (station_index beam (sup_position sB)) -
                  arr_get D (station_index beam (sup_position sA))) /
                 (sup_position sB - sup_position sA);
          C2 = - arr_get D (station_index beam (sup_position sA)) - C1 * sup_position sA
      in deflection_loop (beam_dx beam) (beam_E beam * beam_I beam) S D C1 C2)"
    unfolding solveBeam_slope_deflection by (rule slope_deflection_two[OF nf srt refl])
  have fields: "(let D = D_partial_of beam; S = slopeEI_of beam;
                C1 = - (arr_get D (station_index beam (sup_position sB)) -
                        arr_get D (station_index beam (sup_position sA))) /
                       (sup_position sB - sup_position sA);
                C2 = - arr_get D (station_index beam (sup_position sA)) - C1 * sup_position sA;
                EI = beam_E beam * beam_I beam
            in slope (solveBeam beam) =
                 map (\<lambda>i. (station (beam_dx beam) i, (S ! i + C1) / EI)) [0..<501] \<and>
               deflection (solveBeam beam) =
                 map (\<lambda>i. (station (beam_dx beam) i,
                            (D ! i + C1 * station (beam_dx beam) i + C2) / EI)) [0..<501])"
    using sd unfolding Let_def deflection_loop_eq by (simp add: points_def)
  show "\<exists>sA sB others.
           mset (supports beam) = mset (sA # sB # others) \<and>
           ((\<forall>s\<in>set (supports beam). is_fin (sup_position s)) \<longrightarrow>
              position_le sA sB \<and> (\<forall>s\<in>set others. position_le sB s)) \<and>
           (let D = D_partial_of beam; S = slopeEI_of beam;
                C1 = - (arr_get D (station_index beam (sup_position sB)) -
                        arr_get D (station_index beam (sup_position sA))) /
                       (sup_position sB - sup_position sA);
                C2 = - arr_get D (station_index beam (sup_position sA)) - C1 * sup_position sA;
                EI = beam_E beam * beam_I beam
            in slope (solveBeam beam) =
                 map (\<lambda>i. (station (beam_dx beam) i, (S ! i + C1) / EI)) [0..<501] \<and>
               deflection (solveBeam beam) =
                 map (\<lambda>i. (station (beam_dx beam) i,
                            (D ! i + C1 * station (beam_dx beam) i + C2) / EI)) [0..<501])"
    using ms low fields by blast
next
  assume few: "length (supports beam) < 2"
  have "(slope (solveBeam beam), deflection (solveBeam beam), maxDeflection (solveBeam beam)) =
          (zero_series beam, zero_series beam, Fin 0)"
    unfolding solveBeam_slope_deflection by (rule slope_deflection_few[OF nf few])
  then show "slope (solveBeam beam) = map (\<lambda>i. (station (beam_dx beam) i, Fin 0)) [0..<501]"
    and "deflection (solveBeam beam) = map (\<lambda>i. (station (beam_dx beam) i, Fin 0)) [0..<501]"
    by (simp_all add: zero_series_def points_def)
next
  fix L p
  assume h: "beam_length beam = Fin L \<and> 0 < L \<and> 0 \<le> p \<and> p \<le> L"
  then obtain a where a: "a \<le> 500" "station_index beam (Fin p) = Fin (real a)"
    "\<forall>k::nat. \<bar>real a * (L / 500) - p\<bar> \<le> \<bar>real k * (L / 500) - p\<bar>"
    using station_index_nearest[of beam L p] by auto
  have "arr_get (D_partial_of beam) (Fin (real a)) = D_partial_of beam ! a"
    using a(1) by (simp add: D_partial_of_def length_running_integral points_def)
  then show "\<exists>a\<le>500. station_index beam (Fin p) = Fin (real a) \<and>
           arr_get (D_partial_of beam) (station_index beam (Fin p)) = D_partial_of beam ! a \<and>
           (\<forall>k::nat. \<bar>real a * (L / 500) - p\<bar> \<le> \<bar>real k * (L / 500) - p\<bar>)"
    using a by auto
qed

lemma mset_two_cases:
  assumes "mset [x, y] = mset (a # b # others)"
  shows "others = [] \<and> ((a = x \<and> b = y) \<or> (a = y \<and> b = x))"
proof -
  have "size (mset [x, y]) = size (mset (a # b # others))" using assms by simp
  then have o: "others = []" by simp
  have "{#x, y#} = {#a, b#}" using assms o by simp
  then have "(a = x \<and> b = y) \<or> (a = y \<and> b = x)"
    by (auto simp: add_eq_conv_ex)
  then show ?thesis using o by simp
qed

text \<open>
  The theorem at the start-screen beam, whose supports stand at 10 and 0 in this order:
  \<open>A\<close> is the support at 0 and \<open>B\<close> the one at 10, read at stations 0 and 500. And at the
  beam with one support.
\<close>

theorem deflection_boundary_conditions_witness:
  "(let D = D_partial_of simple_beam;
        C1 = - (D ! 500 - D ! 0) / Fin 10;
        C2 = - (D ! 0) - C1 * Fin 0
    in deflection (solveBeam simple_beam) =
         map (\<lambda>i. (station (Fin (1 / 50)) i,
                    (D ! i + C1 * station (Fin (1 / 50)) i + C2) / Fin 20000000)) [0..<501]) \<and>
   slope (solveBeam one_pin_beam) = map (\<lambda>i. (station (Fin (1 / 50)) i, Fin 0)) [0..<501]"
proof -
  have nf1: "\<forall>s\<in>set (supports simple_beam). sup_type s \<noteq> fixed" by (simp add: simple_beam_def)
  have nf2: "\<forall>s\<in>set (supports one_pin_beam). sup_type s \<noteq> fixed" by (simp add: one_pin_beam_def)
  have dx1: "beam_dx simple_beam = Fin (1 / 50)" by (simp add: beam_dx_def simple_beam_def points_def)
  have dx2: "beam_dx one_pin_beam = Fin (1 / 50)" by (simp add: beam_dx_def one_pin_beam_def points_def)
  have b: "slope (solveBeam one_pin_beam) = map (\<lambda>i. (station (Fin (1 / 50)) i, Fin 0)) [0..<501]"
    using deflection_boundary_conditions[OF nf2] unfolding dx2 by (simp add: one_pin_beam_def)
  define s1 where "s1 = \<lparr>sup_id = ''s1'', sup_type = pin, sup_position = Fin 0\<rparr>"
  define s2 where "s2 = \<lparr>sup_id = ''s2'', sup_type = roller, sup_position = Fin 10\<rparr>"
  have sups: "supports simple_beam = [s2, s1]" by (simp add: simple_beam_def s1_def s2_def)
  have len: "2 \<le> length (supports simple_beam)" by (simp add: sups)
  have fin: "\<forall>s\<in>set (supports simple_beam). is_fin (sup_position s)" by (simp add: sups s1_def s2_def)
  from deflection_boundary_conditions[OF nf1] len fin obtain sA sB others where
    ms: "mset (supports simple_beam) = mset (sA # sB # others)" and
    le: "position_le sA sB" and
    df: "(let D = D_partial_of simple_beam; S = slopeEI_of simple_beam;
                C1 = - (arr_get D (station_index simple_beam (sup_position sB)) -
                        arr_get D (station_index simple_beam (sup_position sA))) /
                       (sup_position sB - sup_position sA);
                C2 = - arr_get D (station_index simple_beam (sup_position sA)) - C1 * sup_position sA;
                EI = beam_E simple_beam * beam_I simple_beam
            in deflection (solveBeam simple_beam) =
                 map (\<lambda>i. (station (beam_dx simple_beam) i,
                            (D ! i + C1 * station (beam_dx simple_beam) i + C2) / EI)) [0..<501])"
    unfolding Let_def by blast
  have "(sA = s2 \<and> sB = s1) \<or> (sA = s1 \<and> sB = s2)"
    using mset_two_cases[OF ms[unfolded sups]] by auto
  moreover have "\<not> position_le s2 s1" by (simp add: position_le_def s1_def s2_def)
  ultimately have AB: "sA = s1" "sB = s2" using le by auto
  have i0: "station_index simple_beam (Fin 0) = Fin 0"
    and i1: "station_index simple_beam (Fin 10) = Fin 500"
    by (simp_all add: station_index_def simple_beam_def points_def)
  have g0: "arr_get (D_partial_of simple_beam) (Fin 0) = D_partial_of simple_beam ! 0"
    and g1: "arr_get (D_partial_of simple_beam) (Fin 500) = D_partial_of simple_beam ! 500"
    by (simp_all add: D_partial_of_def length_running_integral points_def)
  have p1: "sup_position s1 = Fin 0" "sup_position s2 = Fin 10" by (simp_all add: s1_def s2_def)
  have sub: "Fin 10 - Fin 0 = Fin 10" by simp
  have ei: "beam_E simple_beam * beam_I simple_beam = Fin 20000000" by (simp add: simple_beam_def)
  have a: "(let D = D_partial_of simple_beam;
        C1 = - (D ! 500 - D ! 0) / Fin 10;
        C2 = - (D ! 0) - C1 * Fin 0
    in deflection (solveBeam simple_beam) =
         map (\<lambda>i. (station (Fin (1 / 50)) i,
                    (D ! i + C1 * station (Fin (1 / 50)) i + C2) / Fin 20000000)) [0..<501])"
    using df unfolding AB Let_def dx1 ei p1 i0 i1 g0 g1 sub .
  show ?thesis using a b by simp
qed

lemma running_max_Max:
  "running_max (Fin a) (map (\<lambda>i. Fin (m i)) [0..<n]) =
     Fin (Max (insert a ((\<lambda>i. \<bar>m i\<bar>) ` {0..<n})))"
proof (induction n)
  case 0
  show ?case by (simp add: running_max_def)
next
  case (Suc n)
  define A where "A = insert a ((\<lambda>i. \<bar>m i\<bar>) ` {0..<n})"
  have fin: "finite A" "A \<noteq> {}" by (simp_all add: A_def)
  have ih: "running_max (Fin a) (map (\<lambda>i. Fin (m i)) [0..<n]) = Fin (Max A)"
    unfolding A_def by (rule Suc)
  have "running_max (Fin a) (map (\<lambda>i. Fin (m i)) [0..<Suc n]) =
          (if Fin (Max A) < \<bar>Fin (m n)\<bar> then \<bar>Fin (m n)\<bar> else Fin (Max A))"
    by (simp add: running_max_snoc ih)
  also have "\<dots> = Fin (max \<bar>m n\<bar> (Max A))" by (simp add: max_def)
  also have "max \<bar>m n\<bar> (Max A) = Max (insert \<bar>m n\<bar> A)"
    using fin by (rule Max_insert[symmetric])
  also have "insert \<bar>m n\<bar> A = insert a ((\<lambda>i. \<bar>m i\<bar>) ` {0..<Suc n})"
    unfolding A_def by (auto simp: less_Suc_eq)
  finally show ?case .
qed

lemma running_max_attained:
  assumes "\<forall>i<n. vs i = Fin (m i) \<and> \<bar>m i\<bar> \<le> B" "k < n" "\<bar>m k\<bar> = B"
  shows "running_max (Fin 0) (map vs [0..<n]) = Fin B"
proof -
  have eq: "map vs [0..<n] = map (\<lambda>i. Fin (m i)) [0..<n]" using assms(1) by simp
  have mx: "Max (insert 0 ((\<lambda>i. \<bar>m i\<bar>) ` {0..<n})) = B"
  proof (rule Max_eqI)
    show "finite (insert 0 ((\<lambda>i. \<bar>m i\<bar>) ` {0..<n}))" by simp
    show "y \<le> B" if "y \<in> insert 0 ((\<lambda>i. \<bar>m i\<bar>) ` {0..<n})" for y
      using that assms by auto
    show "B \<in> insert 0 ((\<lambda>i. \<bar>m i\<bar>) ` {0..<n})" using assms(2,3) by auto
  qed
  show ?thesis unfolding eq running_max_Max mx ..
qed

lemma midspan_core:
  assumes L: "beam_length beam = Fin L" "0 < L"
    and srt: "sort_position (supports beam) = [s0, sL]"
    and nf: "\<forall>s\<in>set (supports beam). sup_type s \<noteq> fixed"
    and p0: "sup_position s0 = Fin 0" and pL: "sup_position sL = Fin L"
    and ids: "sup_id s0 \<noteq> sup_id sL"
    and f0: "find (\<lambda>s. sup_id s = sup_id s0) (supports beam) = Some s0"
    and fL: "find (\<lambda>s. sup_id s = sup_id sL) (supports beam) = Some sL"
    and ld: "loads beam = [ld]" "load_type ld = point" "position ld = Fin (L / 2)"
            "magnitude ld = Fin P"
    and big: "1 / 10 ^ 10 < \<bar>P\<bar> / 2"
  shows "beam_reactions beam =
           [(sup_id s0, \<lparr>Fy = Fin (P / 2), Mz = None\<rparr>), (sup_id sL, \<lparr>Fy = Fin (P / 2), Mz = None\<rparr>)]"
    and "i \<le> 500 \<Longrightarrow> moment_at beam i =
           Fin (if real i * (L / 500) < L / 2 then P * (real i * (L / 500)) / 2
                else P * (L - real i * (L / 500)) / 2)"
proof -
  have tot: "getTotalLoads (loads beam) (Fin 0) stps = ((Fin P, Fin (P * (L / 2))), stps @ [Step_LoadResultants])"
    for stps
    by (simp add: getTotalLoads_def total_load_step_def ld)
  show r: "beam_reactions beam =
           [(sup_id s0, \<lparr>Fy = Fin (P / 2), Mz = None\<rparr>), (sup_id sL, \<lparr>Fy = Fin (P / 2), Mz = None\<rparr>)]"
    unfolding beam_reactions_def solveReactions_two[OF nf srt]
    using L(2) ids by (simp add: Let_def tot p0 pL)
  define r0 where "r0 = \<lparr>load_id = ''reac-'' @ sup_id s0 @ ''-y'', load_type = point,
      position = Fin 0, magnitude = Fin (- (P / 2)), endMagnitude = None, endPosition = None\<rparr>"
  define rL where "rL = \<lparr>load_id = ''reac-'' @ sup_id sL @ ''-y'', load_type = point,
      position = Fin L, magnitude = Fin (- (P / 2)), endMagnitude = None, endPosition = None\<rparr>"
  have eff: "effective_loads beam (beam_reactions beam) = [ld, r0, rL]"
    unfolding r using big
    by (simp add: effective_loads_def reaction_loads_def f0 fL ld eps10_def Let_def p0 pL r0_def rL_def)
  assume i: "i \<le> 500"
  define x where "x = real i * (L / 500)"
  have x0: "0 \<le> x" using L(2) by (simp add: x_def)
  have "real i \<le> 500" using i by simp
  then have "real i * (L / 500) \<le> 500 * (L / 500)" using L(2) by (intro mult_right_mono) simp_all
  then have xL: "x \<le> L" by (simp add: x_def)
  have st: "station (beam_dx beam) i = Fin x"
    by (simp add: beam_dx_fin[OF L(1)] station_fin x_def)
  have "moment_at beam i = snd (section_forces (Fin L) [ld, r0, rL] (Fin x))"
    by (simp add: moment_at_def eff st L(1))
  also have "\<dots> = Fin ((if L / 2 \<le> x then - P * (x - L / 2) else 0) + P / 2 * x +
                    (if L \<le> x then P / 2 * (x - L) else 0))"
    using x0 by (simp add: section_forces_def load_effect_def ld r0_def rL_def Let_def)
  also have "(if L / 2 \<le> x then - P * (x - L / 2) else 0) + P / 2 * x +
                    (if L \<le> x then P / 2 * (x - L) else 0) =
             (if x < L / 2 then P * x / 2 else P * (L - x) / 2)"
    using xL L(2) by (auto simp: algebra_simps)
  finally show "moment_at beam i =
           Fin (if real i * (L / 500) < L / 2 then P * (real i * (L / 500)) / 2
                else P * (L - real i * (L / 500)) / 2)"
    unfolding x_def .
qed

lemma midspan_moment_bound:
  assumes "0 < L" "i \<le> 500"
  shows "\<bar>midspan_moment L P i\<bar> \<le> \<bar>P\<bar> * L / 4"
proof -
  define x where "x = real i * (L / 500)"
  have x0: "0 \<le> x" using assms(1) by (simp add: x_def)
  have "real i \<le> 500" using assms(2) by simp
  then have "real i * (L / 500) \<le> 500 * (L / 500)"
    using assms(1) by (intro mult_right_mono) simp_all
  then have xL: "x \<le> L" by (simp add: x_def)
  define y where "y = (if x < L / 2 then x else L - x)"
  have y: "0 \<le> y" "y \<le> L / 2" using x0 xL by (auto simp: y_def)
  have "midspan_moment L P i = (if x < L / 2 then P * x / 2 else P * (L - x) / 2)"
    unfolding midspan_moment_def x_def ..
  also have "\<dots> = P * y / 2"
    unfolding y_def by (cases "x < L / 2") (simp_all only: if_True if_False)
  finally have mm: "midspan_moment L P i = P * y / 2" .
  have "\<bar>P * y / 2\<bar> = \<bar>P\<bar> * \<bar>y\<bar> / 2" by (simp add: abs_mult)
  then have "\<bar>midspan_moment L P i\<bar> = \<bar>P\<bar> * y / 2" unfolding mm using y(1) by simp
  moreover have "\<bar>P\<bar> * y \<le> \<bar>P\<bar> * (L / 2)" using y(2) by (intro mult_left_mono) simp_all
  ultimately show ?thesis by simp
qed

lemma midspan_moment_mid: "0 < L \<Longrightarrow> midspan_moment L P 250 = P * L / 4"
  by (simp add: midspan_moment_def)

text \<open>
  Claim C5, amended. For a beam of length \<open>L > 0\<close> on exactly two supports, neither fixed,
  under two different identifiers, at \<open>0\<close> and \<open>L\<close> in either order, under a single point
  load \<open>P\<close> at \<open>L / 2\<close> whose half exceeds the tolerance \<open>1e-10\<close> in absolute value: both
  reactions are \<open>P / 2\<close>, the maximum of \<open>|M|\<close> over the 501 stations is \<open>|P| * L / 4\<close>, it
  bounds \<open>|M|\<close> at every station, and station 250, at \<open>x = L / 2\<close>, attains it with
  \<open>M = P * L / 4\<close>.
\<close>

theorem midspan_point_load:
  assumes L: "beam_length beam = Fin L" "0 < L"
    and sups: "supports beam = [sa, sb]" "sup_type sa \<noteq> fixed" "sup_type sb \<noteq> fixed"
              "sup_id sa \<noteq> sup_id sb"
    and pos: "(sup_position sa = Fin 0 \<and> sup_position sb = Fin L) \<or>
              (sup_position sa = Fin L \<and> sup_position sb = Fin 0)"
    and ld: "loads beam = [ld]" "load_type ld = point" "position ld = Fin (L / 2)"
            "magnitude ld = Fin P"
    and big: "1 / 10 ^ 10 < \<bar>P\<bar> / 2"
  shows "map_of (reactions (solveBeam beam)) (sup_id sa) = Some \<lparr>Fy = Fin (P / 2), Mz = None\<rparr> \<and>
         map_of (reactions (solveBeam beam)) (sup_id sb) = Some \<lparr>Fy = Fin (P / 2), Mz = None\<rparr> \<and>
         length (reactions (solveBeam beam)) = 2 \<and>
         maxBendingMoment (solveBeam beam) = Fin (\<bar>P\<bar> * L / 4) \<and>
         bendingMoment (solveBeam beam) ! 250 = (Fin (L / 2), Fin (P * L / 4)) \<and>
         (\<forall>i<501. \<exists>v. snd (bendingMoment (solveBeam beam) ! i) = Fin v \<and> \<bar>v\<bar> \<le> \<bar>P\<bar> * L / 4)"
proof -
  have nf: "\<forall>s\<in>set (supports beam). sup_type s \<noteq> fixed" using sups by simp
  obtain s0 sL where srt: "sort_position (supports beam) = [s0, sL]"
    and p0: "sup_position s0 = Fin 0" and pL: "sup_position sL = Fin L"
    and ids: "sup_id s0 \<noteq> sup_id sL"
    and f0: "find (\<lambda>s. sup_id s = sup_id s0) (supports beam) = Some s0"
    and fL: "find (\<lambda>s. sup_id s = sup_id sL) (supports beam) = Some sL"
    and ab: "(s0 = sa \<and> sL = sb) \<or> (s0 = sb \<and> sL = sa)"
  proof (cases "sup_position sa = Fin 0 \<and> sup_position sb = Fin L")
    case True
    have "sort_position (supports beam) = [sa, sb]"
      using True L(2) sups(1) by (simp add: sort_position_two)
    then show ?thesis using True sups(1,4) by (intro that[of sa sb]) simp_all
  next
    case False
    then have F: "sup_position sa = Fin L" "sup_position sb = Fin 0" using pos by auto
    have "sort_position (supports beam) = [sb, sa]"
      using F L(2) sups(1) by (simp add: sort_position_two)
    then show ?thesis using F sups(1,4) by (intro that[of sb sa]) auto
  qed
  note core = midspan_core[OF L srt nf p0 pL ids f0 fL ld big]
  have mom: "moment_at beam i = Fin (midspan_moment L P i)" if "i \<le> 500" for i
    using core(2)[OF that] by (simp add: midspan_moment_def)
  have r: "reactions (solveBeam beam) =
      [(sup_id s0, \<lparr>Fy = Fin (P / 2), Mz = None\<rparr>), (sup_id sL, \<lparr>Fy = Fin (P / 2), Mz = None\<rparr>)]"
    by (simp add: solveBeam_reactions core(1))
  have g1: "map_of (reactions (solveBeam beam)) (sup_id sa) = Some \<lparr>Fy = Fin (P / 2), Mz = None\<rparr>"
    and g2: "map_of (reactions (solveBeam beam)) (sup_id sb) = Some \<lparr>Fy = Fin (P / 2), Mz = None\<rparr>"
    and g3: "length (reactions (solveBeam beam)) = 2"
    unfolding r using ab ids by auto
  have all: "\<forall>i<501. moment_at beam i = Fin (midspan_moment L P i) \<and>
                \<bar>midspan_moment L P i\<bar> \<le> \<bar>P\<bar> * L / 4"
    using mom midspan_moment_bound[OF L(2)] by simp
  have k: "\<bar>midspan_moment L P 250\<bar> = \<bar>P\<bar> * L / 4"
    using L(2) by (simp add: midspan_moment_mid abs_mult)
  have "running_max (Fin 0) (map (moment_at beam) [0..<501]) = Fin (\<bar>P\<bar> * L / 4)"
    using all k by (intro running_max_attained[where m = "midspan_moment L P" and k = 250]) simp_all
  then have g4: "maxBendingMoment (solveBeam beam) = Fin (\<bar>P\<bar> * L / 4)"
    unfolding solveBeam_maxBendingMoment points_def by simp
  have nth: "bendingMoment (solveBeam beam) ! i = (station (beam_dx beam) i, moment_at beam i)"
    if "i < 501" for i
    unfolding solveBeam_bendingMoment using that by (simp add: nth_map_upt points_def del: upt_Suc)
  have g5: "bendingMoment (solveBeam beam) ! 250 = (Fin (L / 2), Fin (P * L / 4))"
    using L(2) by (simp add: nth mom midspan_moment_mid beam_dx_fin[OF L(1)] station_fin)
  have g6: "\<forall>i<501. \<exists>v. snd (bendingMoment (solveBeam beam) ! i) = Fin v \<and> \<bar>v\<bar> \<le> \<bar>P\<bar> * L / 4"
    using all by (simp add: nth)
  show ?thesis using g1 g2 g3 g4 g5 g6 by blast
qed

text \<open>
  The theorem at the start-screen beam: length 10, load 10000.
\<close>

theorem midspan_point_load_witness:
  "reactions (solveBeam simple_beam) =
     [(''s1'', \<lparr>Fy = Fin 5000, Mz = None\<rparr>), (''s2'', \<lparr>Fy = Fin 5000, Mz = None\<rparr>)] \<and>
   maxBendingMoment (solveBeam simple_beam) = Fin 25000 \<and>
   bendingMoment (solveBeam simple_beam) ! 250 = (Fin 5, Fin 25000)"
proof -
  define s1 where "s1 = \<lparr>sup_id = ''s1'', sup_type = pin, sup_position = Fin 0\<rparr>"
  define s2 where "s2 = \<lparr>sup_id = ''s2'', sup_type = roller, sup_position = Fin 10\<rparr>"
  define l1 where "l1 = \<lparr>load_id = ''l1'', load_type = point, position = Fin 5,
      magnitude = Fin 10000, endMagnitude = None, endPosition = None\<rparr>"
  have h1: "beam_length simple_beam = Fin 10" "(0::real) < 10" by (simp_all add: simple_beam_def)
  have h2: "supports simple_beam = [s2, s1]" "sup_type s2 \<noteq> fixed" "sup_type s1 \<noteq> fixed"
    "sup_id s2 \<noteq> sup_id s1"
    by (simp_all add: simple_beam_def s1_def s2_def)
  have h3: "(sup_position s2 = Fin 0 \<and> sup_position s1 = Fin 10) \<or>
            (sup_position s2 = Fin 10 \<and> sup_position s1 = Fin 0)"
    by (simp add: s1_def s2_def)
  have h4: "loads simple_beam = [l1]" "load_type l1 = point" "position l1 = Fin (10 / 2)"
    "magnitude l1 = Fin 10000"
    by (simp_all add: simple_beam_def l1_def)
  have h5: "(1::real) / 10 ^ 10 < \<bar>10000\<bar> / 2" by simp
  note t = midspan_point_load[OF h1 h2 h3 h4 h5]
  have r: "reactions (solveBeam simple_beam) =
     [(''s1'', \<lparr>Fy = Fin 5000, Mz = None\<rparr>), (''s2'', \<lparr>Fy = Fin 5000, Mz = None\<rparr>)]"
    by (simp add: solveBeam_reactions beam_reactions_def simple_beam_def solveReactions_def
        sort_position_def getTotalLoads_def total_load_step_def Let_def)
  show ?thesis using t r by simp
qed

text \<open>
  Claim C5 as stated fails for a load whose reactions do not exceed the tolerance
  \<open>1e-10\<close>: the reactions \<open>P / 2\<close> are computed but not entered into the effective load
  list, and the maximum of \<open>|M|\<close> is \<open>P * L / 2\<close>, at the right end, instead of
  \<open>P * L / 4\<close>.
\<close>

theorem tiny_load_counterexample:
  "reactions (solveBeam tiny_load_beam) =
     [(''s1'', \<lparr>Fy = Fin (1 / 20000000000), Mz = None\<rparr>),
      (''s2'', \<lparr>Fy = Fin (1 / 20000000000), Mz = None\<rparr>)] \<and>
   maxBendingMoment (solveBeam tiny_load_beam) = Fin (1 / 20000000000) \<and>
   maxBendingMoment (solveBeam tiny_load_beam) \<noteq> Fin (1 / 10 ^ 10 * 1 / 4)"
proof -
  have r: "beam_reactions tiny_load_beam =
     [(''s1'', \<lparr>Fy = Fin (1 / 20000000000), Mz = None\<rparr>),
      (''s2'', \<lparr>Fy = Fin (1 / 20000000000), Mz = None\<rparr>)]"
    by (simp add: beam_reactions_def tiny_load_beam_def solveReactions_def sort_position_def
        getTotalLoads_def total_load_step_def Let_def)
  have e: "effective_loads tiny_load_beam (beam_reactions tiny_load_beam) = loads tiny_load_beam"
    unfolding r
    by (simp add: effective_loads_def reaction_loads_def tiny_load_beam_def eps10_def Let_def)
  have dx: "beam_dx tiny_load_beam = Fin (1 / 500)"
    by (simp add: beam_dx_def tiny_load_beam_def points_def)
  define m :: "nat \<Rightarrow> real" where
    "m i = (if 1 / 2 \<le> real i * (1 / 500) then - (1 / 10 ^ 10) * (real i * (1 / 500) - 1 / 2) else 0)" for i
  have mom: "moment_at tiny_load_beam i = Fin (m i)" for i
    unfolding moment_at_def e dx station_fin
    by (simp add: section_forces_def load_effect_def tiny_load_beam_def Let_def m_def)
  have bound: "\<bar>m i\<bar> \<le> 1 / 20000000000" if "i < 501" for i
  proof -
    have "real i \<le> 500" using that by simp
    then show ?thesis by (simp add: m_def abs_if)
  qed
  have k: "\<bar>m 500\<bar> = 1 / 20000000000" by (simp add: m_def)
  have "running_max (Fin 0) (map (moment_at tiny_load_beam) [0..<501]) = Fin (1 / 20000000000)"
    using bound k mom by (intro running_max_attained[where m = m and k = 500]) simp_all
  then have mx: "maxBendingMoment (solveBeam tiny_load_beam) = Fin (1 / 20000000000)"
    unfolding solveBeam_maxBendingMoment points_def by simp
  show ?thesis unfolding mx by (simp add: solveBeam_reactions r)
qed

end
